theory Spec2Isabelle
  imports Main
begin

section \<open>JavaScript strings and JSON values\<close>

text \<open>
  The adapter under study is \<^verbatim>\<open>src/claude/claude-kiro.js\<close>. A JavaScript string is
  modelled as a \<^typ>\<open>string\<close>: one \<^typ>\<open>char\<close> per UTF-16 code unit, for code units
  below 256. The characters the source itself tests for (brackets, quotes, ASCII letters,
  white space) all lie in that range.
\<close>

definition is_space :: "char \<Rightarrow> bool" where
  \<comment> \<open>\<^verbatim>\<open>\s\<close> of a JS regular expression and the characters \<^verbatim>\<open>trim()\<close> strips:
      TAB, LF, VT, FF, CR, SPACE and NBSP (the members below 256).\<close>
  "is_space c = (c \<in> set [CHR 0x09, CHR 0x0A, CHR 0x0B, CHR 0x0C, CHR 0x0D, CHR 0x20, CHR 0xA0])"


definition trim :: "string \<Rightarrow> string" where
  "trim s = rev (dropWhile is_space (rev (dropWhile is_space s)))"

definition lower_ascii :: "char \<Rightarrow> char" where
  \<comment> \<open>the folding of the \<^verbatim>\<open>i\<close> flag, as far as it can identify a character with an
      ASCII character of a pattern\<close>
  "lower_ascii c =
     (case map_of (zip ''ABCDEFGHIJKLMNOPQRSTUVWXYZ'' ''abcdefghijklmnopqrstuvwxyz'') c of
        Some d \<Rightarrow> d | None \<Rightarrow> c)"

fun starts_with :: "string \<Rightarrow> string \<Rightarrow> bool" where
  \<comment> \<open>\<^verbatim>\<open>starts_with p s\<close>: the literal \<^verbatim>\<open>p\<close> matches at the head of \<^verbatim>\<open>s\<close>\<close>
  "starts_with [] s = True"
| "starts_with (p # ps) [] = False"
| "starts_with (p # ps) (c # cs) = (p = c \<and> starts_with ps cs)"

fun starts_with_ci :: "string \<Rightarrow> string \<Rightarrow> bool" where
  \<comment> \<open>the same under the \<^verbatim>\<open>i\<close> flag\<close>
  "starts_with_ci [] s = True"
| "starts_with_ci (p # ps) [] = False"
| "starts_with_ci (p # ps) (c # cs) = (lower_ascii p = lower_ascii c \<and> starts_with_ci ps cs)"

fun str_includes :: "string \<Rightarrow> string \<Rightarrow> bool" where
  \<comment> \<open>\<^verbatim>\<open>s.includes(p)\<close>\<close>
  "str_includes p [] = (p = [])"
| "str_includes p (c # cs) = (starts_with p (c # cs) \<or> str_includes p cs)"

fun join_comma :: "string list \<Rightarrow> string" where
  "join_comma [] = []"
| "join_comma [x] = x"
| "join_comma (x # y # ys) = x @ '','' @ join_comma (y # ys)"

text \<open>
  A value read by \<^verbatim>\<open>JSON.parse\<close>. A number is carried as its literal: the adapter never
  computes with one, and IEEE-754 rounding is outside this model. An object is the list
  of its members in property order.
\<close>

datatype jv =
    JNull
  | JBool bool
  | JNum string
  | JStr string
  | JArr "jv list"
  | JObj "(string \<times> jv) list"

definition num_nonzero :: "string \<Rightarrow> bool" where
  \<comment> \<open>a number literal denotes a non-zero number when its mantissa has a non-zero digit\<close>
  "num_nonzero l = list_ex (\<lambda>c. c \<in> set ''123456789'') (takeWhile (\<lambda>c. c \<notin> set ''eE'') l)"

fun truthy :: "jv \<Rightarrow> bool" where
  "truthy JNull = False"
| "truthy (JBool b) = b"
| "truthy (JNum l) = num_nonzero l"
| "truthy (JStr s) = (s \<noteq> [])"
| "truthy (JArr xs) = True"
| "truthy (JObj ms) = True"

fun js_String :: "jv \<Rightarrow> string" where
  \<comment> \<open>the string a value turns into under \<^verbatim>\<open>+=\<close> and in a template literal\<close>
  "js_String JNull = ''null''"
| "js_String (JBool b) = (if b then ''true'' else ''false'')"
| "js_String (JNum l) = l"
| "js_String (JStr s) = s"
| "js_String (JArr xs) = join_comma (map (\<lambda>x. if x = JNull then [] else js_String x) xs)"
| "js_String (JObj ms) = ''[object Object]''"

definition get_prop :: "jv \<Rightarrow> string \<Rightarrow> jv" where
  \<comment> \<open>\<^verbatim>\<open>v.k\<close> for the keys the adapter reads; \<^verbatim>\<open>undefined\<close> is given as \<^verbatim>\<open>JNull\<close>: the
      adapter uses such a property only after it found it truthy\<close>
  "get_prop v k =
     (case v of
        JObj ms \<Rightarrow> (case map_of ms k of Some x \<Rightarrow> x | None \<Rightarrow> JNull)
      | _ \<Rightarrow> JNull)"

subsection \<open>JSON.stringify\<close>

definition hex_digit :: "nat \<Rightarrow> char" where
  "hex_digit n = ''0123456789abcdef'' ! (n mod 16)"

definition quote_char :: "char \<Rightarrow> string" where
  "quote_char c =
     (if c = CHR 0x22 then [CHR 0x5C, CHR 0x22]
      else if c = CHR 0x5C then [CHR 0x5C, CHR 0x5C]
      else if c = CHR 0x08 then [CHR 0x5C, CHR ''b'']
      else if c = CHR 0x0C then [CHR 0x5C, CHR ''f'']
      else if c = CHR 0x0A then [CHR 0x5C, CHR ''n'']
      else if c = CHR 0x0D then [CHR 0x5C, CHR ''r'']
      else if c = CHR 0x09 then [CHR 0x5C, CHR ''t'']
      else if (of_char c :: nat) < 32
        then [CHR 0x5C, CHR ''u'', CHR ''0'', CHR ''0'',
              hex_digit (of_char c div 16), hex_digit (of_char c)]
      else [c])"

definition JSON_quote :: "string \<Rightarrow> string" where
  "JSON_quote s = CHR 0x22 # concat (map quote_char s) @ [CHR 0x22]"

fun JSON_stringify :: "jv \<Rightarrow> string" where
  "JSON_stringify JNull = ''null''"
| "JSON_stringify (JBool b) = (if b then ''true'' else ''false'')"
| "JSON_stringify (JNum l) = l"
| "JSON_stringify (JStr s) = JSON_quote s"
| "JSON_stringify (JArr xs) = ''['' @ join_comma (map JSON_stringify xs) @ '']''"
| "JSON_stringify (JObj ms) =
     ''{'' @ join_comma (map (\<lambda>m. JSON_quote (fst m) @ '':'' @ JSON_stringify (snd m)) ms) @ ''}''"

section \<open>Tool calls\<close>

text \<open>
  \<^verbatim>\<open>{id, type: "function", function: {name, arguments}}\<close>. The id and the name of a
  structured call are copied from the event as they are, so they are JSON values; the
  arguments are always a string.
\<close>

record fn_call =
  fn_name :: jv
  fn_arguments :: string

record tool_call =
  tc_id :: jv
  tc_type :: string
  tc_function :: fn_call

definition dedup_key :: "tool_call \<Rightarrow> string" where
  \<comment> \<open>\<^verbatim>\<open>`${tc.function.name}-${tc.function.arguments}`\<close>\<close>
  "dedup_key tc = js_String (fn_name (tc_function tc)) @ ''-'' @ fn_arguments (tc_function tc)"

fun dedup_loop :: "string set \<Rightarrow> tool_call list \<Rightarrow> tool_call list \<Rightarrow> tool_call list" where
  \<comment> \<open>the \<^verbatim>\<open>for\<close> loop: \<^verbatim>\<open>seen\<close>, \<^verbatim>\<open>uniqueToolCalls\<close>, the calls still to visit\<close>
  "dedup_loop seen uniqueToolCalls [] = uniqueToolCalls"
| "dedup_loop seen uniqueToolCalls (tc # rest) =
     (if dedup_key tc \<notin> seen
      then dedup_loop (insert (dedup_key tc) seen) (uniqueToolCalls @ [tc]) rest
      else dedup_loop seen uniqueToolCalls rest)"

definition deduplicateToolCalls :: "tool_call list \<Rightarrow> tool_call list" where
  "deduplicateToolCalls toolCalls = dedup_loop {} [] toolCalls"

section \<open>Response builder\<close>

record usage =
  input_tokens :: nat
  output_tokens :: nat

datatype content_item =
    TextItem string
  | ToolUseItem jv jv string  \<comment> \<open>id, name, input\<close>

record start_message =
  sm_id :: string
  sm_type :: string
  sm_role :: string
  sm_model :: string
  sm_usage :: usage
  sm_content :: "content_item list"

datatype content_block =
    TextBlock string
  | ToolUseBlock jv jv jv  \<comment> \<open>id, name, input\<close>

datatype delta =
    TextDelta string
  | InputJsonDelta string

datatype event =
    MessageStart start_message
  | ContentBlockStart nat content_block
  | ContentBlockDelta nat delta
  | ContentBlockStop nat
  | MessageDelta string "string option" nat  \<comment> \<open>stop_reason, stop_sequence, output_tokens\<close>
  | MessageStop

record message =
  m_id :: string
  m_type :: string
  m_role :: string
  m_model :: string
  m_stop_reason :: string
  m_stop_sequence :: "string option"
  m_usage :: usage
  m_content :: "content_item list"

datatype response = Stream "event list" | Message message

definition estimateTokens :: "string \<Rightarrow> nat" where
  \<comment> \<open>\<^verbatim>\<open>Math.ceil((text || '').length / 4)\<close>\<close>
  "estimateTokens s = (length s + 3) div 4"

definition has_calls :: "tool_call list option \<Rightarrow> bool" where
  \<comment> \<open>\<^verbatim>\<open>toolCalls && toolCalls.length > 0\<close>\<close>
  "has_calls toolCalls = (case toolCalls of None \<Rightarrow> False | Some tcs \<Rightarrow> tcs \<noteq> [])"

definition text_events :: "nat \<Rightarrow> string \<Rightarrow> event list" where
  "text_events contentBlockIndex content =
     [ContentBlockStart contentBlockIndex (TextBlock []),
      ContentBlockDelta contentBlockIndex (TextDelta content),
      ContentBlockStop contentBlockIndex]"

definition tool_events :: "nat \<Rightarrow> tool_call \<Rightarrow> event list" where
  \<comment> \<open>the body of \<^verbatim>\<open>toolCalls.forEach((tc, index) => ...)\<close>\<close>
  "tool_events index tc =
     [ContentBlockStart index (ToolUseBlock (tc_id tc) (fn_name (tc_function tc)) (JObj [])),
      ContentBlockDelta index (InputJsonDelta (fn_arguments (tc_function tc))),
      ContentBlockStop index]"

fun for_each_tool :: "nat \<Rightarrow> tool_call list \<Rightarrow> event list" where
  "for_each_tool index [] = []"
| "for_each_tool index (tc # tcs) = tool_events index tc @ for_each_tool (Suc index) tcs"

definition stream_tokens :: "string \<Rightarrow> tool_call list option \<Rightarrow> nat" where
  \<comment> \<open>\<^verbatim>\<open>totalOutputTokens\<close>: the text, then the JSON-quoted arguments of every call\<close>
  "stream_tokens content toolCalls =
     (if content \<noteq> [] then estimateTokens content else 0) +
     (if has_calls toolCalls
      then sum_list (map (\<lambda>tc. estimateTokens (JSON_stringify (JStr (fn_arguments (tc_function tc)))))
                         (the toolCalls))
      else 0)"

definition buildClaudeResponse ::
  "string \<Rightarrow> string \<Rightarrow> bool \<Rightarrow> string \<Rightarrow> string \<Rightarrow> tool_call list option \<Rightarrow> response" where
  \<comment> \<open>the first argument is the fresh \<^verbatim>\<open>uuidv4()\<close> of the message id\<close>
  "buildClaudeResponse messageId content isStream role model toolCalls =
     (if isStream then
        Stream
          ([MessageStart \<lparr>sm_id = messageId, sm_type = ''message'', sm_role = role,
               sm_model = model, sm_usage = \<lparr>input_tokens = 0, output_tokens = 0\<rparr>,
               sm_content = []\<rparr>]
           @ (if content \<noteq> []
              then text_events (if has_calls toolCalls then length (the toolCalls) else 0) content
              else [])
           @ (if has_calls toolCalls then for_each_tool 0 (the toolCalls) else [])
           @ [MessageDelta (if has_calls toolCalls then ''tool_use'' else ''end_turn'') None
                (stream_tokens content toolCalls),
              MessageStop])
      else
        Message
          \<lparr>m_id = messageId, m_type = ''message'', m_role = role, m_model = model,
           m_stop_reason = (if has_calls toolCalls then ''tool_use'' else ''end_turn''),
           m_stop_sequence = None,
           m_usage = \<lparr>input_tokens = 0,
              output_tokens =
                (if has_calls toolCalls
                 then sum_list (map (\<lambda>tc. estimateTokens (fn_arguments (tc_function tc))) (the toolCalls))
                 else if content \<noteq> [] then estimateTokens content else 0)\<rparr>,
           m_content =
             (if has_calls toolCalls
              then map (\<lambda>tc. ToolUseItem (tc_id tc) (fn_name (tc_function tc))
                                (fn_arguments (tc_function tc))) (the toolCalls)
              else if content \<noteq> [] then [TextItem content] else [])\<rparr>)"

subsection \<open>What a client reads off a response\<close>

definition events_of :: "response \<Rightarrow> event list" where
  "events_of r = (case r of Stream es \<Rightarrow> es | Message m \<Rightarrow> [])"

fun stream_text :: "event list \<Rightarrow> string" where
  \<comment> \<open>the concatenation of the \<^verbatim>\<open>text_delta\<close>s of a stream\<close>
  "stream_text [] = []"
| "stream_text (ContentBlockDelta i (TextDelta t) # es) = t @ stream_text es"
| "stream_text (e # es) = stream_text es"

fun message_text :: "content_item list \<Rightarrow> string" where
  \<comment> \<open>the text carried by a content array (empty when it has no text block)\<close>
  "message_text [] = []"
| "message_text (TextItem t # cs) = t @ message_text cs"
| "message_text (c # cs) = message_text cs"

definition content_of :: "response \<Rightarrow> content_item list" where
  "content_of r = (case r of Stream es \<Rightarrow> [] | Message m \<Rightarrow> m_content m)"

section \<open>Global replacement with a regular expression\<close>

text \<open>
  \<^verbatim>\<open>s.replace(/re/g, ...)\<close>. A matcher stands for one regular expression of the source:
  applied to the text from the current position it gives \<^verbatim>\<open>None\<close> when the expression
  does not match there, and the replacement with the text after the match when it does.
  The scan goes left to right and resumes after each match. No expression of the source
  matches the empty string; a matcher that consumed nothing is treated as no match.
\<close>

type_synonym matcher = "string \<Rightarrow> (string \<times> string) option"

function replace_all :: "matcher \<Rightarrow> string \<Rightarrow> string" where
  "replace_all m [] = []"
| "replace_all m (c # cs) =
     (case m (c # cs) of
        Some (out, rest) \<Rightarrow>
          if length rest \<le> length cs then out @ replace_all m rest else c # replace_all m cs
      | None \<Rightarrow> c # replace_all m cs)"
  by pat_completeness auto
termination
  by (relation "measure (\<lambda>(m, s). length s)") auto

fun occurs :: "matcher \<Rightarrow> string \<Rightarrow> bool" where
  \<comment> \<open>the expression matches somewhere in the text\<close>
  "occurs m [] = False"
| "occurs m (c # cs) = (m (c # cs) \<noteq> None \<or> occurs m cs)"

section \<open>Sanitizer\<close>

fun find_close :: "string \<Rightarrow> string \<Rightarrow> string option" where
  \<comment> \<open>\<^verbatim>\<open>[\s\S]*?\<close> followed by the literal \<^verbatim>\<open>t\<close> (flag \<^verbatim>\<open>i\<close>): the text after the first
      occurrence of \<^verbatim>\<open>t\<close>\<close>
  "find_close t [] = None"
| "find_close t (c # cs) =
     (if starts_with_ci t (c # cs) then Some (drop (length t) (c # cs)) else find_close t cs)"

definition m_reminder :: matcher where
  \<comment> \<open>\<^verbatim>\<open>/<system-reminder>[\s\S]*?<\/system-reminder>/gi\<close>, replaced by \<^verbatim>\<open>''\<close>\<close>
  "m_reminder s =
     (if starts_with_ci ''<system-reminder>'' s
      then map_option (Pair [])
             (find_close ''</system-reminder>'' (drop (length ''<system-reminder>'') s))
      else None)"

definition m_interrupted :: matcher where
  \<comment> \<open>\<^verbatim>\<open>/\[Request interrupted by user\]/gi\<close>, replaced by \<^verbatim>\<open>''\<close>\<close>
  "m_interrupted s =
     (if starts_with_ci ''[Request interrupted by user]'' s
      then Some ([], drop (length ''[Request interrupted by user]'') s)
      else None)"

definition cleanSystemTags :: "string \<Rightarrow> string" where
  "cleanSystemTags text =
     (if text = [] then text
      else trim (replace_all m_interrupted (replace_all m_reminder text)))"

definition has_reminder :: "string \<Rightarrow> bool" where
  \<comment> \<open>the text holds a \<^verbatim>\<open><system-reminder>...</system-reminder>\<close> span\<close>
  "has_reminder s = occurs m_reminder s"

definition has_interrupted :: "string \<Rightarrow> bool" where
  \<comment> \<open>the text holds \<^verbatim>\<open>[Request interrupted by user]\<close>\<close>
  "has_interrupted s = occurs m_interrupted s"

section \<open>Request shaper\<close>

subsection \<open>The ingress request\<close>

datatype part =
    PText string  \<comment> \<open>\<^verbatim>\<open>{type: 'text', text}\<close>\<close>
  | PToolResult string content  \<comment> \<open>\<^verbatim>\<open>{type: 'tool_result', tool_use_id, content}\<close>\<close>
  | PToolUse string string jv  \<comment> \<open>\<^verbatim>\<open>{type: 'tool_use', id, name, input}\<close>\<close>
  | PImage string string  \<comment> \<open>\<^verbatim>\<open>{type: 'image', source: {media_type, data}}\<close>\<close>
  | POther  \<comment> \<open>a part of any other type\<close>
and content =
    CNone  \<comment> \<open>\<^verbatim>\<open>null\<close> or \<^verbatim>\<open>undefined\<close>\<close>
  | CString string
  | CParts "part list"

record in_message =
  msg_role :: string
  msg_content :: content

record tool =
  tool_name :: string
  tool_description :: "string option"
  tool_input_schema :: "jv option"

record config =
  KIRO_MAX_TOOLS :: "nat option"
  KIRO_DISABLE_TOOLS :: "bool option"
  KIRO_MAX_HISTORY :: "nat option"
  KIRO_MAX_REQUEST_SIZE :: "nat option"
  KIRO_MAX_MESSAGE_LENGTH :: "nat option"
  REQUEST_MAX_RETRIES :: "nat option"
  REQUEST_BASE_DELAY :: "nat option"

definition or_default :: "nat option \<Rightarrow> nat \<Rightarrow> nat" where
  \<comment> \<open>\<^verbatim>\<open>this.config.KEY || d\<close>: an absent knob and the knob 0 both give the default\<close>
  "or_default v d = (case v of None \<Rightarrow> d | Some n \<Rightarrow> if n = 0 then d else n)"

record service =
  sv_config :: config
  sv_authMethod :: "string option"
  sv_profileArn :: "string option"
  sv_modelName :: string
  sv_KIRO_MODELS :: "string list"
    \<comment> \<open>\<^verbatim>\<open>getProviderModels('claude-kiro-oauth')\<close>; \<^verbatim>\<open>provider-models.js\<close> is not among the sources\<close>

subsection \<open>The upstream request\<close>

record tool_result =
  tr_content :: "string list"  \<comment> \<open>\<^verbatim>\<open>[{text}]\<close>\<close>
  tr_status :: string
  tr_toolUseId :: string

record tool_use =
  tu_input :: jv
  tu_name :: string
  tu_toolUseId :: string

record image =
  img_format :: "string option"
  img_bytes :: string

record tool_spec =
  ts_name :: string
  ts_description :: string
  ts_inputSchema :: jv

datatype 'a slot = Absent | Null | Present 'a

record uim_context =
  ctx_toolResults :: "tool_result list option"
  ctx_tools :: "tool_spec list slot"

record user_input_message =
  uim_content :: string
  uim_modelId :: "string option"
  uim_origin :: string
  uim_userInputMessageContext :: "uim_context option"
  uim_images :: "image list option"

record assistant_response_message =
  arm_content :: string
  arm_toolUses :: "tool_use list"

datatype history_entry =
    UserInputMessage user_input_message
  | AssistantResponseMessage assistant_response_message

record conversation_state =
  chatTriggerType :: string
  conversationId :: string
  currentMessage :: "user_input_message option"
    \<comment> \<open>\<^verbatim>\<open>None\<close> is the object \<^verbatim>\<open>{}\<close> that holds no \<^verbatim>\<open>userInputMessage\<close>\<close>
  history :: "history_entry list"

record request =
  conversationState :: conversation_state
  profileArn :: "string option"


subsection \<open>Constants\<close>

text \<open>
  The Chinese words of the three truncation markers lie outside the range of
  \<^typ>\<open>char\<close>; they are written as their UTF-8 octets.
\<close>

definition content_marker :: string where
  \<comment> \<open>\<^verbatim>\<open>'\n...[' + content truncated + ']'\<close>\<close>
  "content_marker = CHR 0x0A # ''...['' @
     [CHR 0xE5, CHR 0x86, CHR 0x85, CHR 0xE5, CHR 0xAE, CHR 0xB9, CHR 0xE5, CHR 0xB7, CHR 0xB2,
      CHR 0xE6, CHR 0x88, CHR 0xAA, CHR 0xE6, CHR 0x96, CHR 0xAD] @ '']''"

definition tool_result_marker :: string where
  \<comment> \<open>\<^verbatim>\<open>'\n...[' + tool result truncated + ']'\<close>\<close>
  "tool_result_marker = CHR 0x0A # ''...['' @
     [CHR 0xE5, CHR 0xB7, CHR 0xA5, CHR 0xE5, CHR 0x85, CHR 0xB7, CHR 0xE7, CHR 0xBB, CHR 0x93,
      CHR 0xE6, CHR 0x9E, CHR 0x9C, CHR 0xE5, CHR 0xB7, CHR 0xB2, CHR 0xE6, CHR 0x88, CHR 0xAA,
      CHR 0xE6, CHR 0x96, CHR 0xAD] @ '']''"

definition short_marker :: string where
  \<comment> \<open>\<^verbatim>\<open>'\n...[' + truncated + ']'\<close>\<close>
  "short_marker = CHR 0x0A # ''...['' @
     [CHR 0xE5, CHR 0xB7, CHR 0xB2, CHR 0xE6, CHR 0x88, CHR 0xAA, CHR 0xE6, CHR 0x96, CHR 0xAD] @ '']''"

definition FULL_MODEL_MAPPING :: "(string \<times> string) list" where
  "FULL_MODEL_MAPPING =
     [(''claude-opus-4-5'', ''claude-opus-4.5''),
      (''claude-sonnet-4-5'', ''CLAUDE_SONNET_4_5_20250929_V1_0''),
      (''claude-sonnet-4-5-20250929'', ''CLAUDE_SONNET_4_5_20250929_V1_0''),
      (''claude-sonnet-4-20250514'', ''CLAUDE_SONNET_4_20250514_V1_0''),
      (''claude-3-7-sonnet-20250219'', ''CLAUDE_3_7_SONNET_20250219_V1_0''),
      (''amazonq-claude-sonnet-4-20250514'', ''CLAUDE_SONNET_4_20250514_V1_0''),
      (''amazonq-claude-3-7-sonnet-20250219'', ''CLAUDE_3_7_SONNET_20250219_V1_0'')]"

definition MODEL_MAPPING :: "string list \<Rightarrow> string \<Rightarrow> string option" where
  "MODEL_MAPPING models = map_of (filter (\<lambda>kv. fst kv \<in> set models) FULL_MODEL_MAPPING)"

definition coreTools :: "string list" where
  "coreTools = [''Read'', ''Write'', ''Edit'', ''Glob'', ''Grep'', ''Bash'', ''WebFetch'',
                ''WebSearch'', ''AskUserQuestion'']"

subsection \<open>Helpers of the shaper\<close>

definition text_of_parts :: "part list \<Rightarrow> string" where
  \<comment> \<open>\<^verbatim>\<open>.filter(part => part.type === 'text' && part.text).map(part => part.text).join('')\<close>\<close>
  "text_of_parts ps = concat (map (\<lambda>p. case p of PText t \<Rightarrow> t | _ \<Rightarrow> []) ps)"

definition getContentText :: "in_message \<Rightarrow> string" where
  \<comment> \<open>\<^verbatim>\<open>getContentText\<close> called on a message\<close>
  "getContentText message =
     (case msg_content message of
        CString s \<Rightarrow> s
      | CParts ps \<Rightarrow> text_of_parts ps
      | CNone \<Rightarrow> ''[object Object]'')"

definition getContentText_of :: "content \<Rightarrow> string" where
  \<comment> \<open>\<^verbatim>\<open>getContentText\<close> called on a system prompt or on the content of a tool result\<close>
  "getContentText_of c =
     (case c of CNone \<Rightarrow> [] | CString s \<Rightarrow> s | CParts ps \<Rightarrow> text_of_parts ps)"

definition cut :: "nat \<Rightarrow> string \<Rightarrow> string \<Rightarrow> string" where
  \<comment> \<open>\<^verbatim>\<open>t.length > maxLen ? t.substring(0, maxLen) + marker : t\<close>\<close>
  "cut maxLen marker t = (if length t > maxLen then take maxLen t @ marker else t)"

definition truncateContent :: "content \<Rightarrow> nat \<Rightarrow> content" where
  "truncateContent c maxLen =
     (case c of
        CNone \<Rightarrow> CNone
      | CString s \<Rightarrow>
          if s = [] then CString s else CString (cut maxLen content_marker (cleanSystemTags s))
      | CParts ps \<Rightarrow>
          CParts (map (\<lambda>p. case p of
                              PText t \<Rightarrow>
                                if t \<noteq> [] then PText (cut maxLen content_marker (cleanSystemTags t))
                                else p
                            | _ \<Rightarrow> p) ps))"

definition toolsContext :: "config \<Rightarrow> tool list option \<Rightarrow> tool_spec list option" where
  \<comment> \<open>\<^verbatim>\<open>None\<close> is the empty object, \<^verbatim>\<open>Some specs\<close> is \<^verbatim>\<open>{tools: specs}\<close>\<close>
  "toolsContext cfg tools =
     (case tools of
        None \<Rightarrow> None
      | Some ts \<Rightarrow>
          if KIRO_DISABLE_TOOLS cfg \<noteq> Some True \<and> ts \<noteq> [] then
            (let filteredTools =
                   take (or_default (KIRO_MAX_TOOLS cfg) 12)
                     (filter (\<lambda>t. tool_name t \<in> set coreTools
                                  \<or> \<not> length (case tool_description t of None \<Rightarrow> [] | Some d \<Rightarrow> d) > 1000)
                        ts)
             in if filteredTools \<noteq> [] then
                  Some (map (\<lambda>t. \<lparr>ts_name = tool_name t,
                                   ts_description =
                                     take 300 (case tool_description t of None \<Rightarrow> [] | Some d \<Rightarrow> d),
                                   ts_inputSchema =
                                     (case tool_input_schema t of None \<Rightarrow> JObj [] | Some j \<Rightarrow> j)\<rparr>)
                          filteredTools)
                else None)
          else None)"

definition image_format :: "string \<Rightarrow> string option" where
  \<comment> \<open>\<^verbatim>\<open>media_type.split('/')[1]\<close>\<close>
  "image_format media_type =
     (case dropWhile (\<lambda>c. c \<noteq> CHR ''/'') media_type of
        [] \<Rightarrow> None
      | slash # rest \<Rightarrow> Some (takeWhile (\<lambda>c. c \<noteq> CHR ''/'') rest))"

definition toolResultOf :: "nat \<Rightarrow> string \<Rightarrow> content \<Rightarrow> tool_result" where
  "toolResultOf maxMessageLength tool_use_id c =
     \<lparr>tr_content = [cut maxMessageLength tool_result_marker (cleanSystemTags (getContentText_of c))],
      tr_status = ''success'', tr_toolUseId = tool_use_id\<rparr>"

definition imageOf :: "string \<Rightarrow> string \<Rightarrow> image" where
  "imageOf media_type data = \<lparr>img_format = image_format media_type, img_bytes = data\<rparr>"

subsection \<open>History assembly\<close>

record user_acc =
  ua_content :: string
  ua_toolResults :: "tool_result list option"
  ua_images :: "image list"

fun history_user_part :: "nat \<Rightarrow> user_acc \<Rightarrow> part \<Rightarrow> user_acc" where
  \<comment> \<open>one round of \<^verbatim>\<open>for (const part of message.content)\<close>, user message\<close>
  "history_user_part maxMessageLength a (PText t) =
     a\<lparr>ua_content := ua_content a @ cleanSystemTags t\<rparr>"
| "history_user_part maxMessageLength a (PToolResult tool_use_id c) =
     a\<lparr>ua_toolResults :=
         Some ((case ua_toolResults a of None \<Rightarrow> [] | Some rs \<Rightarrow> rs)
               @ [toolResultOf maxMessageLength tool_use_id c])\<rparr>"
| "history_user_part maxMessageLength a (PImage media_type data) =
     a\<lparr>ua_images := ua_images a @ [imageOf media_type data]\<rparr>"
| "history_user_part maxMessageLength a p = a"

definition history_user :: "nat \<Rightarrow> string option \<Rightarrow> in_message \<Rightarrow> history_entry" where
  "history_user maxMessageLength codewhispererModel message =
     (case msg_content message of
        CParts ps \<Rightarrow>
          (let a = foldl (history_user_part maxMessageLength)
                     \<lparr>ua_content = [], ua_toolResults = None, ua_images = []\<rparr> ps
           in UserInputMessage
                \<lparr>uim_content = ua_content a, uim_modelId = codewhispererModel,
                 uim_origin = ''AI_EDITOR'',
                 uim_userInputMessageContext =
                   Some \<lparr>ctx_toolResults = ua_toolResults a, ctx_tools = Absent\<rparr>,
                 uim_images = Some (ua_images a)\<rparr>)
      | _ \<Rightarrow>
          UserInputMessage
            \<lparr>uim_content = cleanSystemTags (getContentText message),
             uim_modelId = codewhispererModel, uim_origin = ''AI_EDITOR'',
             uim_userInputMessageContext = Some \<lparr>ctx_toolResults = None, ctx_tools = Absent\<rparr>,
             uim_images = None\<rparr>)"

fun history_assistant_part ::
  "assistant_response_message \<Rightarrow> part \<Rightarrow> assistant_response_message" where
  "history_assistant_part a (PText t) = a\<lparr>arm_content := arm_content a @ t\<rparr>"
| "history_assistant_part a (PToolUse tid name input) =
     a\<lparr>arm_toolUses := arm_toolUses a @ [\<lparr>tu_input = input, tu_name = name, tu_toolUseId = tid\<rparr>]\<rparr>"
| "history_assistant_part a p = a"

definition history_assistant :: "in_message \<Rightarrow> history_entry" where
  "history_assistant message =
     (case msg_content message of
        CParts ps \<Rightarrow>
          AssistantResponseMessage
            (foldl history_assistant_part \<lparr>arm_content = [], arm_toolUses = []\<rparr> ps)
      | _ \<Rightarrow>
          AssistantResponseMessage \<lparr>arm_content = getContentText message, arm_toolUses = []\<rparr>)"

fun history_loop ::
  "nat \<Rightarrow> string option \<Rightarrow> history_entry list \<Rightarrow> in_message list \<Rightarrow> history_entry list" where
  \<comment> \<open>\<^verbatim>\<open>for (let i = startIndex; i < processedMessages.length - 1; i++)\<close>, with the
      history built so far\<close>
  "history_loop maxMessageLength codewhispererModel h [] = h"
| "history_loop maxMessageLength codewhispererModel h (message # rest) =
     (if msg_role message = ''user''
      then history_loop maxMessageLength codewhispererModel
             (h @ [history_user maxMessageLength codewhispererModel message]) rest
      else if msg_role message = ''assistant''
      then history_loop maxMessageLength codewhispererModel (h @ [history_assistant message]) rest
      else history_loop maxMessageLength codewhispererModel h rest)"

subsection \<open>Current message\<close>

record current =
  currentContent :: string
  currentToolResults :: "tool_result list"
  currentToolUses :: "tool_use list"
  currentImages :: "image list"

fun current_part :: "nat \<Rightarrow> current \<Rightarrow> part \<Rightarrow> current" where
  \<comment> \<open>one round of \<^verbatim>\<open>for (const part of currentMessage.content)\<close>\<close>
  "current_part maxMessageLength a (PText t) =
     a\<lparr>currentContent := currentContent a @ cleanSystemTags t\<rparr>"
| "current_part maxMessageLength a (PToolResult tool_use_id c) =
     a\<lparr>currentToolResults := currentToolResults a @ [toolResultOf maxMessageLength tool_use_id c]\<rparr>"
| "current_part maxMessageLength a (PToolUse tid name input) =
     a\<lparr>currentToolUses :=
         currentToolUses a @ [\<lparr>tu_input = input, tu_name = name, tu_toolUseId = tid\<rparr>]\<rparr>"
| "current_part maxMessageLength a (PImage media_type data) =
     a\<lparr>currentImages := currentImages a @ [imageOf media_type data]\<rparr>"
| "current_part maxMessageLength a POther = a"

definition scan_current :: "nat \<Rightarrow> in_message \<Rightarrow> current" where
  \<comment> \<open>the accumulators after the loop, and the \<^verbatim>\<open>'Continue'\<close> fallback\<close>
  "scan_current maxMessageLength message =
     (let a = (case msg_content message of
                 CParts ps \<Rightarrow>
                   foldl (current_part maxMessageLength)
                     \<lparr>currentContent = [], currentToolResults = [], currentToolUses = [],
                      currentImages = []\<rparr> ps
               | _ \<Rightarrow>
                   \<lparr>currentContent = getContentText message, currentToolResults = [],
                    currentToolUses = [], currentImages = []\<rparr>)
      in if currentContent a = [] \<and> currentToolResults a = [] \<and> currentToolUses a = []
         then a\<lparr>currentContent := ''Continue''\<rparr> else a)"

definition current_user :: "string option \<Rightarrow> tool_spec list option \<Rightarrow> current \<Rightarrow> user_input_message" where
  \<comment> \<open>the branch \<^verbatim>\<open>currentMessage.role === 'user'\<close>\<close>
  "current_user codewhispererModel tctx a =
     \<lparr>uim_content = currentContent a, uim_modelId = codewhispererModel,
      uim_origin = ''AI_EDITOR'',
      uim_userInputMessageContext =
        (if currentToolResults a = [] \<and> tctx = None then None
         else Some \<lparr>ctx_toolResults =
                      (if currentToolResults a \<noteq> [] then Some (currentToolResults a) else None),
                    ctx_tools = (case tctx of Some ts \<Rightarrow> Present ts | None \<Rightarrow> Absent)\<rparr>),
      uim_images = (if currentImages a \<noteq> [] then Some (currentImages a) else None)\<rparr>"

definition continue_message :: "string option \<Rightarrow> tool_spec list option \<Rightarrow> user_input_message" where
  \<comment> \<open>\<^verbatim>\<open>continueMessage\<close> of the branch \<^verbatim>\<open>currentMessage.role === 'assistant'\<close>\<close>
  "continue_message codewhispererModel tctx =
     \<lparr>uim_content = ''Continue'', uim_modelId = codewhispererModel, uim_origin = ''AI_EDITOR'',
      uim_userInputMessageContext =
        (case tctx of
           Some ts \<Rightarrow> Some \<lparr>ctx_toolResults = None, ctx_tools = Present ts\<rparr>
         | None \<Rightarrow> None),
      uim_images = None\<rparr>"

subsection \<open>The request before size enforcement\<close>

definition max_history :: "config \<Rightarrow> nat" where
  "max_history cfg = or_default (KIRO_MAX_HISTORY cfg) 15"

definition max_message_length :: "config \<Rightarrow> nat" where
  "max_message_length cfg = or_default (KIRO_MAX_MESSAGE_LENGTH cfg) 8000"


definition processedMessages :: "config \<Rightarrow> in_message list \<Rightarrow> in_message list" where
  \<comment> \<open>the history cap \<^verbatim>\<open>slice(-maxHistory)\<close>, then the per-message cap\<close>
  "processedMessages cfg messages =
     map (\<lambda>msg. msg\<lparr>msg_content := truncateContent (msg_content msg) (max_message_length cfg)\<rparr>)
       (if length messages > max_history cfg
        then drop (length messages - max_history cfg) messages
        else messages)"

definition system_entry :: "string option \<Rightarrow> string \<Rightarrow> history_entry" where
  "system_entry codewhispererModel text =
     UserInputMessage
       \<lparr>uim_content = text, uim_modelId = codewhispererModel, uim_origin = ''AI_EDITOR'',
        uim_userInputMessageContext = None, uim_images = None\<rparr>"

definition shape_request ::
  "service \<Rightarrow> string \<Rightarrow> in_message list \<Rightarrow> string \<Rightarrow> tool list option \<Rightarrow> content \<Rightarrow> request" where
  \<comment> \<open>the body of \<^verbatim>\<open>buildCodewhispererRequest\<close> up to the size check, for a list of
      messages that is not empty\<close>
  "shape_request sv uuid messages model tools inSystemPrompt =
     (let cfg = sv_config sv;
          systemPrompt = getContentText_of inSystemPrompt;
          pm = processedMessages cfg messages;
          codewhispererModel =
            (case MODEL_MAPPING (sv_KIRO_MODELS sv) model of
               Some m \<Rightarrow> Some m
             | None \<Rightarrow> MODEL_MAPPING (sv_KIRO_MODELS sv) (sv_modelName sv));
          maxMessageLength = max_message_length cfg;
          tctx = toolsContext cfg tools;
          system_first = (systemPrompt \<noteq> [] \<and> msg_role (hd pm) = ''user'');
          history0 =
            (if systemPrompt \<noteq> [] then
               (if msg_role (hd pm) = ''user''
                then [system_entry codewhispererModel
                        (systemPrompt @ [CHR 0x0A, CHR 0x0A] @ getContentText (hd pm))]
                else [system_entry codewhispererModel systemPrompt])
             else []);
          startIndex = (if system_first then 1 else 0);
          history1 = history_loop maxMessageLength codewhispererModel history0
                       (butlast (drop startIndex pm));
          cm = last pm;
          a = scan_current maxMessageLength cm
      in \<lparr>conversationState =
            \<lparr>chatTriggerType = ''MANUAL'', conversationId = uuid,
             currentMessage =
               (if msg_role cm = ''user'' then Some (current_user codewhispererModel tctx a)
                else if msg_role cm = ''assistant'' then Some (continue_message codewhispererModel tctx)
                else None),
             history =
               (if msg_role cm = ''assistant''
                then history1 @ [AssistantResponseMessage
                                  \<lparr>arm_content = currentContent a, arm_toolUses = currentToolUses a\<rparr>]
                else history1)\<rparr>,
          profileArn = (if sv_authMethod sv = Some ''social'' then sv_profileArn sv else None)\<rparr>)"

definition new_service :: "config \<Rightarrow> string option \<Rightarrow> string option \<Rightarrow> string list \<Rightarrow> service" where
  \<comment> \<open>the service as the constructor leaves it (\<^verbatim>\<open>modelName = DEFAULT_MODEL_NAME\<close>), with
      the credentials' \<^verbatim>\<open>authMethod\<close> and \<^verbatim>\<open>profileArn\<close>\<close>
  "new_service cfg authMethod arn models =
     \<lparr>sv_config = cfg, sv_authMethod = authMethod, sv_profileArn = arn,
      sv_modelName = ''claude-opus-4-5'', sv_KIRO_MODELS = models\<rparr>"

definition no_config :: config where
  \<comment> \<open>the configuration that sets no knob\<close>
  "no_config =
     \<lparr>KIRO_MAX_TOOLS = None, KIRO_DISABLE_TOOLS = None, KIRO_MAX_HISTORY = None,
      KIRO_MAX_REQUEST_SIZE = None, KIRO_MAX_MESSAGE_LENGTH = None,
      REQUEST_MAX_RETRIES = None, REQUEST_BASE_DELAY = None\<rparr>"

subsection \<open>Size enforcement\<close>

definition set_history :: "request \<Rightarrow> history_entry list \<Rightarrow> request" where
  "set_history r h = r\<lparr>conversationState := (conversationState r)\<lparr>history := h\<rparr>\<rparr>"

definition history_of :: "request \<Rightarrow> history_entry list" where
  "history_of r = history (conversationState r)"





definition current_tools :: "request \<Rightarrow> bool" where
  \<comment> \<open>\<^verbatim>\<open>currentMessage?.userInputMessage?.userInputMessageContext?.tools\<close> is there\<close>
  "current_tools r =
     (case currentMessage (conversationState r) of
        None \<Rightarrow> False
      | Some m \<Rightarrow>
          (case uim_userInputMessageContext m of
             None \<Rightarrow> False
           | Some c \<Rightarrow> (case ctx_tools c of Present ts \<Rightarrow> True | _ \<Rightarrow> False)))"

definition remove_tools :: "request \<Rightarrow> request" where
  \<comment> \<open>strategy 3: \<^verbatim>\<open>userInputMessageContext.tools = null\<close>\<close>
  "remove_tools r =
     r\<lparr>conversationState := (conversationState r)
         \<lparr>currentMessage :=
            map_option
              (\<lambda>m. m\<lparr>uim_userInputMessageContext :=
                        map_option (\<lambda>c. c\<lparr>ctx_tools := Null\<rparr>) (uim_userInputMessageContext m)\<rparr>)
              (currentMessage (conversationState r))\<rparr>\<rparr>"




subsection \<open>The remediation as the specification words it\<close>


function stage_a :: "(request \<Rightarrow> nat) \<Rightarrow> nat \<Rightarrow> request \<Rightarrow> request" where
  \<comment> \<open>(a) shift the oldest entry off while more than 5 are left, one at a time, under
      the same stopping rule\<close>
  "stage_a json_length budget r =
     (if json_length r \<le> budget \<or> length (history_of r) \<le> 5 then r
      else stage_a json_length budget (set_history r (tl (history_of r))))"
  by pat_completeness auto
termination
  by (relation "measure (\<lambda>(f, m, r). length (history_of r))")
     (auto simp: history_of_def set_history_def)

declare stage_a.simps [simp del]

definition stage_b :: "request \<Rightarrow> request" where
  \<comment> \<open>(b) history contents longer than 2000 characters are cut there and marked\<close>
  "stage_b r =
     set_history r
       (map (\<lambda>e. case e of
                UserInputMessage m \<Rightarrow>
                  UserInputMessage
                    (if length (uim_content m) > 2000
                     then m\<lparr>uim_content := take 2000 (uim_content m) @ short_marker\<rparr> else m)
              | AssistantResponseMessage m \<Rightarrow>
                  AssistantResponseMessage
                    (if length (arm_content m) > 2000
                     then m\<lparr>arm_content := take 2000 (arm_content m) @ short_marker\<rparr> else m))
          (history_of r))"

definition stage_c :: "request \<Rightarrow> request" where
  \<comment> \<open>(c) the tools of the current message, where it has any, become null\<close>
  "stage_c r = (if current_tools r then remove_tools r else r)"

definition stage_d :: "request \<Rightarrow> request" where
  \<comment> \<open>(d) only the last 3 history entries are kept\<close>
  "stage_d r = set_history r (drop (length (history_of r) - 3) (history_of r))"


section \<open>What the claims read off a shaped request\<close>



definition current_content :: "request \<Rightarrow> string option" where
  \<comment> \<open>\<^verbatim>\<open>currentMessage.userInputMessage.content\<close>, where there is a \<^verbatim>\<open>userInputMessage\<close>\<close>
  "current_content r = map_option uim_content (currentMessage (conversationState r))"

definition current_toolResults :: "request \<Rightarrow> tool_result list" where
  \<comment> \<open>\<^verbatim>\<open>currentMessage.userInputMessage.userInputMessageContext.toolResults\<close>, empty when
      any link of the path is missing\<close>
  "current_toolResults r =
     (case currentMessage (conversationState r) of
        None \<Rightarrow> []
      | Some m \<Rightarrow>
          (case uim_userInputMessageContext m of
             None \<Rightarrow> []
           | Some c \<Rightarrow> (case ctx_toolResults c of None \<Rightarrow> [] | Some rs \<Rightarrow> rs)))"



definition system_alone :: "service \<Rightarrow> in_message list \<Rightarrow> content \<Rightarrow> bool" where
  \<comment> \<open>there is a system prompt and the first retained message is not a user message, so
      the prompt gets a history entry to itself\<close>
  "system_alone sv messages inSystemPrompt =
     (getContentText_of inSystemPrompt \<noteq> []
      \<and> msg_role (hd (processedMessages (sv_config sv) messages)) \<noteq> ''user'')"

section \<open>JSON.parse\<close>

text \<open>
  \<^verbatim>\<open>JSON.parse\<close> as a lexer and a pushdown automaton over its tokens; \<^verbatim>\<open>None\<close> is the
  \<^verbatim>\<open>SyntaxError\<close>. An escape \<^verbatim>\<open>\uXXXX\<close> above \<^verbatim>\<open>\u00FF\<close> denotes a code unit outside
  \<^typ>\<open>char\<close> and is outside this model (it is rejected).
\<close>

datatype token =
    TLBrace | TRBrace | TLBrack | TRBrack | TColon | TComma
  | TString string | TNumber string | TTrue | TFalse | TNull

definition hex_value :: "char \<Rightarrow> nat option" where
  "hex_value c =
     map_of (zip ''0123456789abcdef'' [0 ..< 16] @ zip ''ABCDEF'' [10 ..< 16]) c"

definition unicode_escape :: "char \<Rightarrow> char \<Rightarrow> char \<Rightarrow> char \<Rightarrow> char option" where
  "unicode_escape a b c d =
     (case (hex_value a, hex_value b, hex_value c, hex_value d) of
        (Some x, Some y, Some z, Some w) \<Rightarrow>
          if x = 0 \<and> y = 0 then Some (char_of (16 * z + w)) else None
      | _ \<Rightarrow> None)"

definition simple_escape :: "char \<Rightarrow> char option" where
  "simple_escape e =
     map_of [(CHR 0x22, CHR 0x22), (CHR 0x5C, CHR 0x5C), (CHR ''/'', CHR ''/''),
             (CHR ''b'', CHR 0x08), (CHR ''f'', CHR 0x0C), (CHR ''n'', CHR 0x0A),
             (CHR ''r'', CHR 0x0D), (CHR ''t'', CHR 0x09)] e"

definition unescape :: "string \<Rightarrow> (char \<times> string) option" where
  \<comment> \<open>after a backslash: the character of the escape and the input after it\<close>
  "unescape s =
     (case s of
        [] \<Rightarrow> None
      | e # cs \<Rightarrow>
          (if e = CHR ''u'' then
             (case cs of
                h1 # h2 # h3 # h4 # rest \<Rightarrow>
                  map_option (\<lambda>ch. (ch, rest)) (unicode_escape h1 h2 h3 h4)
              | _ \<Rightarrow> None)
           else map_option (\<lambda>ch. (ch, cs)) (simple_escape e)))"

lemma unescape_shorter: "unescape s = Some (ch, r) \<Longrightarrow> length r < length s"
  unfolding unescape_def
  by (cases s) (auto split: if_splits list.splits)

function lex_string :: "string \<Rightarrow> string \<Rightarrow> (string \<times> string) option" where
  \<comment> \<open>after the opening quote: the characters read so far (reversed) and the input; gives
      the string and the input after the closing quote\<close>
  "lex_string acc [] = None"
| "lex_string acc (c # cs) =
     (if c = CHR 0x22 then Some (rev acc, cs)
      else if c = CHR 0x5C then
        (case unescape cs of
           Some (ch, rest) \<Rightarrow> lex_string (ch # acc) rest
         | None \<Rightarrow> None)
      else if (of_char c :: nat) < 32 then None
      else lex_string (c # acc) cs)"
  by pat_completeness auto
termination
proof (relation "measure (\<lambda>(acc, s). length s)")
  fix acc :: string and c :: char and cs :: string and x2 x y
  assume "unescape cs = Some x2" "(x, y) = x2"
  then have "length y < length cs" using unescape_shorter[of cs x y] by simp
  then show "((x # acc, y), (acc, c # cs)) \<in> measure (\<lambda>(acc, s). length s)" by simp
qed simp_all

definition is_digit :: "char \<Rightarrow> bool" where
  "is_digit c = (c \<in> set ''0123456789'')"

definition valid_number :: "string \<Rightarrow> bool" where
  \<comment> \<open>\<^verbatim>\<open>-?(0|[1-9][0-9]*)(\.[0-9]+)?([eE][+-]?[0-9]+)?\<close>\<close>
  "valid_number l =
     (let unsigned = (if starts_with ''-'' l then tl l else l);
          int_part = takeWhile is_digit unsigned;
          after_int = dropWhile is_digit unsigned;
          frac_ok = (if starts_with ''.'' after_int
                     then takeWhile is_digit (tl after_int) \<noteq> [] else True);
          after_frac = (if starts_with ''.'' after_int
                        then dropWhile is_digit (tl after_int) else after_int);
          exp_digits = (if after_frac = [] then []
                        else if starts_with ''+'' (tl after_frac) \<or> starts_with ''-'' (tl after_frac)
                        then tl (tl after_frac) else tl after_frac)
      in int_part \<noteq> [] \<and> (starts_with ''0'' int_part \<longrightarrow> int_part = ''0'') \<and> frac_ok
         \<and> (after_frac = []
            \<or> ((starts_with ''e'' after_frac \<or> starts_with ''E'' after_frac)
               \<and> exp_digits \<noteq> [] \<and> list_all is_digit exp_digits)))"

definition number_char :: "char \<Rightarrow> bool" where
  "number_char c = (c \<in> set ''+-.eE0123456789'')"

lemma lex_string_shorter: "lex_string acc s = Some (v, r) \<Longrightarrow> length r < length s"
proof (induction acc s rule: lex_string.induct)
  case (1 acc)
  then show ?case by simp
next
  case (2 acc c cs)
  show ?case
  proof (cases "c = CHR 0x22")
    case True
    with "2.prems" show ?thesis by simp
  next
    case nq: False
    show ?thesis
    proof (cases "c = CHR 0x5C")
      case True
      with nq "2.prems" obtain ch rest where u: "unescape cs = Some (ch, rest)"
        and l: "lex_string (ch # acc) rest = Some (v, r)"
        by (auto split: option.splits)
      from u have "length rest < length cs" by (rule unescape_shorter)
      moreover have "length r < length rest"
        using "2.IH"(1)[OF nq True u refl l] .
      ultimately show ?thesis by simp
    next
      case nb: False
      with nq "2.prems" have c: "\<not> (of_char c :: nat) < 32" and l: "lex_string (c # acc) cs = Some (v, r)"
        by (auto split: if_splits)
      have "length r < length cs" using "2.IH"(2)[OF nq nb c l] .
      then show ?thesis by simp
    qed
  qed
qed

function JSON_lex :: "string \<Rightarrow> token list option" where
  "JSON_lex [] = Some []"
| "JSON_lex (c # cs) =
     (if c \<in> set [CHR 0x20, CHR 0x09, CHR 0x0A, CHR 0x0D] then JSON_lex cs
      else if c = CHR ''{'' then map_option (Cons TLBrace) (JSON_lex cs)
      else if c = CHR ''}'' then map_option (Cons TRBrace) (JSON_lex cs)
      else if c = CHR ''['' then map_option (Cons TLBrack) (JSON_lex cs)
      else if c = CHR '']'' then map_option (Cons TRBrack) (JSON_lex cs)
      else if c = CHR '':'' then map_option (Cons TColon) (JSON_lex cs)
      else if c = CHR '','' then map_option (Cons TComma) (JSON_lex cs)
      else if c = CHR 0x22 then
        (case lex_string [] cs of
           Some (s, rest) \<Rightarrow> map_option (Cons (TString s)) (JSON_lex rest)
         | None \<Rightarrow> None)
      else if c = CHR ''-'' \<or> is_digit c then
        (if valid_number (c # takeWhile number_char cs)
         then map_option (Cons (TNumber (c # takeWhile number_char cs)))
                (JSON_lex (dropWhile number_char cs))
         else None)
      else if starts_with ''true'' (c # cs) then map_option (Cons TTrue) (JSON_lex (drop 3 cs))
      else if starts_with ''false'' (c # cs) then map_option (Cons TFalse) (JSON_lex (drop 4 cs))
      else if starts_with ''null'' (c # cs) then map_option (Cons TNull) (JSON_lex (drop 3 cs))
      else None)"
  by pat_completeness auto
termination
proof (relation "measure length")
  fix c :: char and cs :: string and x2 :: "string \<times> string" and x y :: string
  assume "lex_string [] cs = Some x2" "(x, y) = x2"
  then have "length y < length cs" using lex_string_shorter[of "[]" cs x y] by simp
  then show "(y, c # cs) \<in> measure length" by simp
next
  fix c :: char and cs :: string
  have "length (dropWhile number_char cs) \<le> length cs" by (rule length_dropWhile_le)
  then show "(dropWhile number_char cs, c # cs) \<in> measure length" by simp
qed simp_all

subsection \<open>Property order of an object\<close>

definition is_index :: "string \<Rightarrow> bool" where
  \<comment> \<open>an array index: a canonical decimal below \<^verbatim>\<open>2^32 - 1\<close>; such keys come first, in
      ascending order\<close>
  "is_index k =
     (k \<noteq> [] \<and> list_all is_digit k \<and> (starts_with ''0'' k \<longrightarrow> k = ''0'')
      \<and> (length k < 10
         \<or> (length k = 10 \<and> lexordp (<) (map of_char k :: nat list) (map of_char ''4294967295''))))"

definition index_less :: "string \<Rightarrow> string \<Rightarrow> bool" where
  "index_less a b =
     (length a < length b
      \<or> (length a = length b \<and> lexordp (<) (map of_char a :: nat list) (map of_char b)))"

fun insert_index :: "string \<Rightarrow> jv \<Rightarrow> (string \<times> jv) list \<Rightarrow> (string \<times> jv) list" where
  "insert_index k v [] = [(k, v)]"
| "insert_index k v (m # ms) =
     (if is_index (fst m) \<and> index_less (fst m) k then m # insert_index k v ms
      else (k, v) # m # ms)"

definition obj_put :: "(string \<times> jv) list \<Rightarrow> string \<Rightarrow> jv \<Rightarrow> (string \<times> jv) list" where
  "obj_put ms k v =
     (if k \<in> fst ` set ms then map (\<lambda>m. if fst m = k then (k, v) else m) ms
      else if is_index k then insert_index k v ms
      else ms @ [(k, v)])"

subsection \<open>The automaton\<close>

datatype frame =
    FArr "jv list"  \<comment> \<open>an open array with its elements so far\<close>
  | FKey "(string \<times> jv) list" string  \<comment> \<open>an open object, its members so far, the key before the colon\<close>

fun JSON_pda :: "frame list \<Rightarrow> jv option \<Rightarrow> token list \<Rightarrow> jv option" where
  \<comment> \<open>the open containers, the value just completed (if any), the tokens left\<close>
  "JSON_pda st completed [] =
     (case completed of
        Some v \<Rightarrow> (if st = [] then Some v else None)
      | None \<Rightarrow> None)"
| "JSON_pda st completed (t # ts) =
     (case completed of
        Some v \<Rightarrow>
          (case st of
             [] \<Rightarrow> None
           | FArr xs # st' \<Rightarrow>
               (case t of
                  TComma \<Rightarrow> JSON_pda (FArr (xs @ [v]) # st') None ts
                | TRBrack \<Rightarrow> JSON_pda st' (Some (JArr (xs @ [v]))) ts
                | _ \<Rightarrow> None)
           | FKey ms k # st' \<Rightarrow>
               (case t of
                  TComma \<Rightarrow>
                    (case ts of
                       TString k' # TColon # ts' \<Rightarrow> JSON_pda (FKey (obj_put ms k v) k' # st') None ts'
                     | _ \<Rightarrow> None)
                | TRBrace \<Rightarrow> JSON_pda st' (Some (JObj (obj_put ms k v))) ts
                | _ \<Rightarrow> None))
      | None \<Rightarrow>
          (case t of
             TString s \<Rightarrow> JSON_pda st (Some (JStr s)) ts
           | TNumber l \<Rightarrow> JSON_pda st (Some (JNum l)) ts
           | TTrue \<Rightarrow> JSON_pda st (Some (JBool True)) ts
           | TFalse \<Rightarrow> JSON_pda st (Some (JBool False)) ts
           | TNull \<Rightarrow> JSON_pda st (Some JNull) ts
           | TLBrack \<Rightarrow>
               (case ts of
                  TRBrack # ts' \<Rightarrow> JSON_pda st (Some (JArr [])) ts'
                | _ \<Rightarrow> JSON_pda (FArr [] # st) None ts)
           | TLBrace \<Rightarrow>
               (case ts of
                  TRBrace # ts' \<Rightarrow> JSON_pda st (Some (JObj [])) ts'
                | TString k # TColon # ts' \<Rightarrow> JSON_pda (FKey [] k # st) None ts'
                | _ \<Rightarrow> None)
           | _ \<Rightarrow> None))"

definition JSON_parse :: "string \<Rightarrow> jv option" where
  "JSON_parse s = (case JSON_lex s of None \<Rightarrow> None | Some toks \<Rightarrow> JSON_pda [] None toks)"

section \<open>Bracket tool calls\<close>
















subsection \<open>Removal of the text of a call\<close>










section \<open>Event-stream parser\<close>




fun decode_newlines :: "bool \<Rightarrow> string \<Rightarrow> string" where
  \<comment> \<open>\<^verbatim>\<open>replace(/(?<!\\)\\n/g, '\n')\<close>; the flag says that the character before is a
      backslash\<close>
  "decode_newlines after_backslash [] = []"
| "decode_newlines after_backslash [c] = [c]"
| "decode_newlines after_backslash (c # d # cs) =
     (if \<not> after_backslash \<and> c = CHR 0x5C \<and> d = CHR ''n''
      then CHR 0x0A # decode_newlines False cs
      else c # decode_newlines (c = CHR 0x5C) (d # cs))"

record pstate =
  fullContent :: string
  ps_toolCalls :: "tool_call list"
  currentToolCallDict :: "tool_call option"

definition finish_call :: "tool_call \<Rightarrow> tool_call" where
  \<comment> \<open>on \<^verbatim>\<open>stop\<close>: the arguments are serialized again when they parse, and kept otherwise\<close>
  "finish_call d =
     (case JSON_parse (fn_arguments (tc_function d)) of
        Some args \<Rightarrow> d\<lparr>tc_function := (tc_function d)\<lparr>fn_arguments := JSON_stringify args\<rparr>\<rparr>
      | None \<Rightarrow> d)"

definition handle_event :: "pstate \<Rightarrow> jv \<Rightarrow> pstate option" where
  \<comment> \<open>the body of the \<^verbatim>\<open>try\<close> after \<^verbatim>\<open>JSON.parse\<close>; \<^verbatim>\<open>None\<close> when it throws, which the
      \<^verbatim>\<open>catch\<close> answers with \<^verbatim>\<open>continue\<close>\<close>
  "handle_event st eventData =
     (if eventData = JNull then None
      else if truthy (get_prop eventData ''name'') \<and> truthy (get_prop eventData ''toolUseId'') then
        (let opened =
               (case currentToolCallDict st of
                  None \<Rightarrow>
                    \<lparr>tc_id = get_prop eventData ''toolUseId'', tc_type = ''function'',
                     tc_function = \<lparr>fn_name = get_prop eventData ''name'', fn_arguments = []\<rparr>\<rparr>
                | Some d \<Rightarrow> d);
             fed =
               (if truthy (get_prop eventData ''input'')
                then opened\<lparr>tc_function := (tc_function opened)
                        \<lparr>fn_arguments := fn_arguments (tc_function opened)
                                          @ js_String (get_prop eventData ''input'')\<rparr>\<rparr>
                else opened)
         in if truthy (get_prop eventData ''stop'')
            then Some (st\<lparr>ps_toolCalls := ps_toolCalls st @ [finish_call fed],
                          currentToolCallDict := None\<rparr>)
            else Some (st\<lparr>currentToolCallDict := Some fed\<rparr>))
      else if \<not> truthy (get_prop eventData ''followupPrompt'') \<and> truthy (get_prop eventData ''content'') then
        (case get_prop eventData ''content'' of
           JStr decodedContent \<Rightarrow>
             Some (st\<lparr>fullContent := fullContent st @ decode_newlines False decodedContent\<rparr>)
         | _ \<Rightarrow> None)
      else Some st)"

fun candidates_from :: "string \<Rightarrow> string \<Rightarrow> string list" where
  \<comment> \<open>the prefixes that end at a closing brace, shortest first\<close>
  "candidates_from before [] = []"
| "candidates_from before (c # cs) =
     (if c = CHR ''}'' then [before @ [c]] else []) @ candidates_from (before @ [c]) cs"

definition candidates :: "string \<Rightarrow> string list" where
  \<comment> \<open>\<^verbatim>\<open>indexOf('}', searchPos + 1)\<close> from \<^verbatim>\<open>searchPos = 0\<close>: the first character is skipped\<close>
  "candidates block = (case block of [] \<Rightarrow> [] | c # cs \<Rightarrow> candidates_from [c] cs)"

fun try_candidates :: "pstate \<Rightarrow> string list \<Rightarrow> pstate" where
  \<comment> \<open>the \<^verbatim>\<open>while\<close> loop over the candidates of one block\<close>
  "try_candidates st [] = st"
| "try_candidates st (jsonCandidate # later) =
     (case JSON_parse (trim jsonCandidate) of
        None \<Rightarrow> try_candidates st later
      | Some eventData \<Rightarrow>
          (case handle_event st eventData of
             None \<Rightarrow> try_candidates st later
           | Some st' \<Rightarrow> st'))"

definition scan_block :: "pstate \<Rightarrow> string \<Rightarrow> pstate" where
  "scan_block st potentialJsonBlock =
     (if trim potentialJsonBlock = [] then st
      else try_candidates st (candidates potentialJsonBlock))"





record api_result =
  responseText :: string
  toolCalls :: "tool_call list"


section \<open>Structured tool-use events\<close>



definition feed_events :: "pstate \<Rightarrow> jv list \<Rightarrow> pstate" where
  "feed_events st events =
     foldl (\<lambda>s eventData. case handle_event s eventData of Some s' \<Rightarrow> s' | None \<Rightarrow> s) st events"

definition with_arguments :: "tool_call \<Rightarrow> string \<Rightarrow> tool_call" where
  "with_arguments d chunk =
     d\<lparr>tc_function := (tc_function d)\<lparr>fn_arguments := fn_arguments (tc_function d) @ chunk\<rparr>\<rparr>"

definition opened_call :: "string \<Rightarrow> string \<Rightarrow> string \<Rightarrow> tool_call" where
  "opened_call name toolUseId arguments =
     \<lparr>tc_id = JStr toolUseId, tc_type = ''function'',
      tc_function = \<lparr>fn_name = JStr name, fn_arguments = arguments\<rparr>\<rparr>"

section \<open>Transport and retry\<close>

record js_error =
  err_status :: "nat option"  \<comment> \<open>\<^verbatim>\<open>error.response?.status\<close>\<close>
  err_code :: "string option"  \<comment> \<open>\<^verbatim>\<open>error.code\<close>\<close>
  err_message :: "string option"  \<comment> \<open>\<^verbatim>\<open>error.message\<close>\<close>

datatype action =
    Post string  \<comment> \<open>\<^verbatim>\<open>axiosInstance.post(requestUrl, ...)\<close>\<close>
  | Refresh  \<comment> \<open>\<^verbatim>\<open>initializeAuth(true)\<close>\<close>
  | Sleep nat  \<comment> \<open>\<^verbatim>\<open>setTimeout(resolve, delay)\<close>\<close>

record world =
  posts :: nat  \<comment> \<open>the requests posted so far\<close>
  refreshes :: nat  \<comment> \<open>the forced refreshes so far\<close>
  trace :: "action list"  \<comment> \<open>what was done, in order\<close>

record transport =
  baseUrl :: string
  amazonQUrl :: string
  post_outcome :: "nat \<Rightarrow> string \<Rightarrow> request \<Rightarrow> js_error + string"
    \<comment> \<open>what the upstream answers to the \<^verbatim>\<open>k\<close>-th post: the error thrown, or the data\<close>
  refresh_outcome :: "nat \<Rightarrow> js_error option"
    \<comment> \<open>what the \<^verbatim>\<open>k\<close>-th forced refresh throws, if anything\<close>

definition isNetworkError :: "js_error \<Rightarrow> bool" where
  "isNetworkError error =
     (err_code error = Some ''ECONNRESET'' \<or> err_code error = Some ''ETIMEDOUT''
      \<or> err_code error = Some ''ECONNABORTED''
      \<or> (case err_message error of
            None \<Rightarrow> False
          | Some msg \<Rightarrow> str_includes ''stream has been aborted'' msg
                          \<or> str_includes ''socket hang up'' msg))"

definition server_error :: "js_error \<Rightarrow> bool" where
  \<comment> \<open>\<^verbatim>\<open>status >= 500 && status < 600\<close>\<close>
  "server_error error = (case err_status error of None \<Rightarrow> False | Some s \<Rightarrow> 500 \<le> s \<and> s < 600)"

definition backoff :: "config \<Rightarrow> nat \<Rightarrow> world \<Rightarrow> world" where
  \<comment> \<open>\<^verbatim>\<open>delay = baseDelay * Math.pow(2, retryCount)\<close>, and the sleep\<close>
  "backoff cfg retryCount w =
     w\<lparr>trace := trace w @ [Sleep (or_default (REQUEST_BASE_DELAY cfg) 1000 * 2 ^ retryCount)]\<rparr>"

function callApi ::
  "config \<Rightarrow> transport \<Rightarrow> string \<Rightarrow> js_error + request \<Rightarrow> bool \<Rightarrow> nat \<Rightarrow> world
     \<Rightarrow> (js_error + string) \<times> world" where
  \<comment> \<open>\<^verbatim>\<open>callApi(method, model, body, isRetry, retryCount)\<close> of an initialized service. The
      fourth argument is what \<^verbatim>\<open>buildCodewhispererRequest\<close> gives for the body, which every
      attempt builds again: the request, or the error it throws.\<close>
  "callApi cfg tr model built isRetry retryCount w =
     (case built of
        Inl e \<Rightarrow> (Inl e, w)
      | Inr requestData \<Rightarrow>
          (let maxRetries = or_default (REQUEST_MAX_RETRIES cfg) 3;
               requestUrl = (if starts_with ''amazonq'' model then amazonQUrl tr else baseUrl tr);
               w1 = w\<lparr>posts := posts w + 1, trace := trace w @ [Post requestUrl]\<rparr>
           in case post_outcome tr (posts w) requestUrl requestData of
                Inr response \<Rightarrow> (Inr response, w1)
              | Inl error \<Rightarrow>
                  if err_status error = Some 403 \<and> \<not> isRetry then
                    (case refresh_outcome tr (refreshes w1) of
                       Some refreshError \<Rightarrow>
                         (Inl refreshError,
                          w1\<lparr>refreshes := refreshes w1 + 1, trace := trace w1 @ [Refresh]\<rparr>)
                     | None \<Rightarrow>
                         callApi cfg tr model built True retryCount
                           (w1\<lparr>refreshes := refreshes w1 + 1, trace := trace w1 @ [Refresh]\<rparr>))
                  else if err_status error = Some 429 \<and> retryCount < maxRetries then
                    callApi cfg tr model built isRetry (retryCount + 1) (backoff cfg retryCount w1)
                  else if server_error error \<and> retryCount < maxRetries then
                    callApi cfg tr model built isRetry (retryCount + 1) (backoff cfg retryCount w1)
                  else if isNetworkError error \<and> retryCount < maxRetries then
                    callApi cfg tr model built isRetry (retryCount + 1) (backoff cfg retryCount w1)
                  else (Inl error, w1)))"
  by pat_completeness auto
termination
  by (relation "measure (\<lambda>(cfg, tr, model, built, isRetry, retryCount, w).
        (if isRetry then 0 else 1) + (or_default (REQUEST_MAX_RETRIES cfg) 3 - retryCount))")
     auto

declare callApi.simps [simp del]

definition fresh_world :: world where
  "fresh_world = \<lparr>posts = 0, refreshes = 0, trace = []\<rparr>"

subsection \<open>One attempt\<close>

definition url_of :: "transport \<Rightarrow> string \<Rightarrow> string" where
  \<comment> \<open>\<^verbatim>\<open>requestUrl\<close>\<close>
  "url_of tr model = (if starts_with ''amazonq'' model then amazonQUrl tr else baseUrl tr)"

definition posted :: "transport \<Rightarrow> string \<Rightarrow> world \<Rightarrow> world" where
  \<comment> \<open>the world after one more post\<close>
  "posted tr model w = w\<lparr>posts := posts w + 1, trace := trace w @ [Post (url_of tr model)]\<rparr>"

definition backs_off :: "config \<Rightarrow> js_error \<Rightarrow> nat \<Rightarrow> bool" where
  \<comment> \<open>one of the three branches that sleep and call again is taken\<close>
  "backs_off cfg error retryCount =
     ((err_status error = Some 429 \<or> server_error error \<or> isNetworkError error)
      \<and> retryCount < or_default (REQUEST_MAX_RETRIES cfg) 3)"

section \<open>Deduplication key\<close>

text \<open>
  C10. The deduplication key is the string \<^verbatim>\<open>name + "-" + arguments\<close>, not the pair:
  the calls \<^verbatim>\<open>("X-", "{}")\<close> and \<^verbatim>\<open>("X", "-{}")\<close> differ in name and in arguments, have the
  same key, and \<^verbatim>\<open>deduplicateToolCalls\<close> keeps only the first of them.
\<close>

theorem dedup_key_collision:
  "deduplicateToolCalls
     [\<lparr>tc_id = JStr ''a'', tc_type = ''function'',
        tc_function = \<lparr>fn_name = JStr ''X-'', fn_arguments = ''{}''\<rparr>\<rparr>,
      \<lparr>tc_id = JStr ''b'', tc_type = ''function'',
        tc_function = \<lparr>fn_name = JStr ''X'', fn_arguments = ''-{}''\<rparr>\<rparr>]
   = [\<lparr>tc_id = JStr ''a'', tc_type = ''function'',
        tc_function = \<lparr>fn_name = JStr ''X-'', fn_arguments = ''{}''\<rparr>\<rparr>]
   \<and> (JStr ''X-'', ''{}'') \<noteq> (JStr ''X'', ''-{}'')"
  by (simp add: deduplicateToolCalls_def dedup_key_def)

section \<open>Order of the pseudo-stream\<close>

text \<open>
  C2. With a text and one tool call, \<^verbatim>\<open>buildClaudeResponse\<close> in stream mode emits the
  text block first, under index 1, and the block of the tool call after it, under index 0;
  the claimed order has every tool call before the text.
\<close>

theorem stream_emits_text_block_first:
  "buildClaudeResponse ''m1'' ''hi'' True ''assistant'' ''claude-sonnet-4-5''
     (Some [\<lparr>tc_id = JStr ''t1'', tc_type = ''function'',
              tc_function = \<lparr>fn_name = JStr ''Read'', fn_arguments = ''{}''\<rparr>\<rparr>])
   = Stream
      [MessageStart \<lparr>sm_id = ''m1'', sm_type = ''message'', sm_role = ''assistant'',
         sm_model = ''claude-sonnet-4-5'', sm_usage = \<lparr>input_tokens = 0, output_tokens = 0\<rparr>,
         sm_content = []\<rparr>,
       ContentBlockStart 1 (TextBlock []),
       ContentBlockDelta 1 (TextDelta ''hi''),
       ContentBlockStop 1,
       ContentBlockStart 0 (ToolUseBlock (JStr ''t1'') (JStr ''Read'') (JObj [])),
       ContentBlockDelta 0 (InputJsonDelta ''{}''),
       ContentBlockStop 0,
       MessageDelta ''tool_use'' None 2,
       MessageStop]"
  by (simp add: buildClaudeResponse_def has_calls_def text_events_def tool_events_def
        stream_tokens_def estimateTokens_def JSON_quote_def quote_char_def)

section \<open>Stream and message of one response\<close>

text \<open>
  C3. With a text and one tool call, the stream carries the text in a \<^verbatim>\<open>text_delta\<close>,
  and the non-streaming message of the same response has the tool call only: its content
  array has no text block.
\<close>

theorem message_drops_text_beside_tool_calls:
  "stream_text (events_of (buildClaudeResponse ''m1'' ''hi'' True ''assistant'' ''claude-sonnet-4-5''
     (Some [\<lparr>tc_id = JStr ''t1'', tc_type = ''function'',
              tc_function = \<lparr>fn_name = JStr ''Read'', fn_arguments = ''{}''\<rparr>\<rparr>]))) = ''hi''
   \<and> content_of (buildClaudeResponse ''m1'' ''hi'' False ''assistant'' ''claude-sonnet-4-5''
     (Some [\<lparr>tc_id = JStr ''t1'', tc_type = ''function'',
              tc_function = \<lparr>fn_name = JStr ''Read'', fn_arguments = ''{}''\<rparr>\<rparr>]))
     = [ToolUseItem (JStr ''t1'') (JStr ''Read'') ''{}'']
   \<and> message_text (content_of (buildClaudeResponse ''m1'' ''hi'' False ''assistant'' ''claude-sonnet-4-5''
     (Some [\<lparr>tc_id = JStr ''t1'', tc_type = ''function'',
              tc_function = \<lparr>fn_name = JStr ''Read'', fn_arguments = ''{}''\<rparr>\<rparr>]))) = []"
  by (simp add: buildClaudeResponse_def has_calls_def text_events_def tool_events_def
        events_of_def content_of_def)

section \<open>Idempotence of the sanitizer\<close>

definition deletes :: "matcher \<Rightarrow> bool" where
  "deletes m = (\<forall>s out rest. m s = Some (out, rest) \<longrightarrow> out = [] \<and> length rest < length s)"

lemma replace_all_no_occurrence: "\<not> occurs m s \<Longrightarrow> replace_all m s = s"
  by (induction s) (auto split: option.splits)

lemma length_replace_all_le: "deletes m \<Longrightarrow> length (replace_all m s) \<le> length s"
proof (induction m s rule: replace_all.induct)
  case (1 m)
  then show ?case by simp
next
  case (2 m c cs)
  show ?case
  proof (cases "m (c # cs)")
    case None
    with 2 show ?thesis by auto
  next
    case (Some p)
    obtain out rest where p: "p = (out, rest)" by (cases p)
    from Some p "2.prems" have o: "out = []" and l: "length rest < length (c # cs)"
      unfolding deletes_def by blast+
    from l have l': "length rest \<le> length cs" by simp
    have "length (replace_all m rest) \<le> length rest"
      using "2.IH" Some p l' "2.prems" by auto
    with Some p o l' show ?thesis by simp
  qed
qed

lemma length_replace_all_less:
  "deletes m \<Longrightarrow> occurs m s \<Longrightarrow> length (replace_all m s) < length s"
proof (induction m s rule: replace_all.induct)
  case (1 m)
  then show ?case by simp
next
  case (2 m c cs)
  show ?case
  proof (cases "m (c # cs)")
    case None
    with 2 show ?thesis by auto
  next
    case (Some p)
    obtain out rest where p: "p = (out, rest)" by (cases p)
    from Some p "2.prems"(1) have o: "out = []" and l: "length rest < length (c # cs)"
      unfolding deletes_def by blast+
    from l have l': "length rest \<le> length cs" by simp
    have "length (replace_all m rest) \<le> length rest"
      using "2.prems"(1) by (rule length_replace_all_le)
    with Some p o l' show ?thesis by simp
  qed
qed

lemma length_trim_le: "length (trim s) \<le> length s"
proof -
  have "length (trim s) \<le> length (dropWhile is_space s)"
    unfolding trim_def using length_dropWhile_le[of is_space "rev (dropWhile is_space s)"] by simp
  also have "\<dots> \<le> length s" by (rule length_dropWhile_le)
  finally show ?thesis .
qed

lemma dropWhile_fix: "xs = [] \<or> \<not> P (hd xs) \<Longrightarrow> dropWhile P xs = xs"
  by (cases xs) auto

lemma hd_dropWhile_not: "dropWhile P xs \<noteq> [] \<Longrightarrow> \<not> P (hd (dropWhile P xs))"
  by (rule hd_dropWhile)

lemma last_dropWhile: "dropWhile P xs \<noteq> [] \<Longrightarrow> last (dropWhile P xs) = last xs"
  by (induction xs) (auto split: if_splits)

lemma trim_idem: "trim (trim s) = trim s"
proof -
  define u where "u = dropWhile is_space s"
  define v where "v = dropWhile is_space (rev u)"
  have t: "trim s = rev v" by (simp add: trim_def u_def v_def)
  have a: "dropWhile is_space (rev v) = rev v"
  proof (cases "v = []")
    case True then show ?thesis by simp
  next
    case False
    then have "last v = last (rev u)" unfolding v_def by (rule last_dropWhile)
    moreover from False have "u \<noteq> []" by (auto simp: v_def)
    ultimately have "last v = hd u" by (simp add: last_rev)
    moreover have "\<not> is_space (hd u)" using \<open>u \<noteq> []\<close> unfolding u_def by (rule hd_dropWhile)
    ultimately have "\<not> is_space (hd (rev v))" using False by (simp add: hd_rev)
    then show ?thesis by (intro dropWhile_fix) simp
  qed
  have b: "dropWhile is_space v = v" unfolding v_def by (rule dropWhile_idem)
  show ?thesis unfolding t by (simp add: trim_def a b)
qed

lemma find_close_shorter: "find_close t s = Some r \<Longrightarrow> length r \<le> length s"
  by (induction s) (auto split: if_splits)

lemma starts_with_ci_length: "starts_with_ci p s \<Longrightarrow> length p \<le> length s"
  by (induction p s rule: starts_with_ci.induct) auto

lemma deletes_reminder: "deletes m_reminder"
proof -
  have "length rest < length s"
    if a: "starts_with_ci ''<system-reminder>'' s"
      and b: "find_close ''</system-reminder>'' (drop (length ''<system-reminder>'') s) = Some rest"
    for s rest
  proof -
    from a have "length ''<system-reminder>'' \<le> length s" by (rule starts_with_ci_length)
    moreover from b have "length rest \<le> length (drop (length ''<system-reminder>'') s)"
      by (rule find_close_shorter)
    ultimately show ?thesis by simp
  qed
  then show ?thesis
    unfolding deletes_def m_reminder_def by (auto split: if_splits)
qed

lemma deletes_interrupted: "deletes m_interrupted"
proof -
  have "length (drop (length ''[Request interrupted by user]'') s) < length s"
    if a: "starts_with_ci ''[Request interrupted by user]'' s" for s
    using starts_with_ci_length[OF a] by simp
  then show ?thesis
    unfolding deletes_def m_interrupted_def by (auto split: if_splits)
qed

lemma clean_fix:
  assumes "\<not> has_reminder t" "\<not> has_interrupted t" "trim t = t"
  shows "cleanSystemTags t = t"
  using assms by (simp add: cleanSystemTags_def has_reminder_def has_interrupted_def replace_all_no_occurrence)

lemma trim_Nil: "trim [] = []"
  by (simp add: trim_def)

lemma clean_trimmed: "trim (cleanSystemTags s) = cleanSystemTags s"
  by (simp add: cleanSystemTags_def trim_idem trim_Nil)

lemma clean_shrinks:
  assumes "has_reminder t \<or> has_interrupted t"
  shows "length (cleanSystemTags t) < length t"
proof -
  from assms have ne: "t \<noteq> []" by (auto simp: has_reminder_def has_interrupted_def)
  let ?a = "replace_all m_reminder t"
  have "length (replace_all m_interrupted ?a) < length t"
  proof (cases "has_reminder t")
    case True
    then have "length ?a < length t"
      unfolding has_reminder_def by (rule length_replace_all_less[OF deletes_reminder])
    moreover have "length (replace_all m_interrupted ?a) \<le> length ?a"
      by (rule length_replace_all_le[OF deletes_interrupted])
    ultimately show ?thesis by simp
  next
    case False
    then have "?a = t" unfolding has_reminder_def by (rule replace_all_no_occurrence)
    moreover from False assms have "occurs m_interrupted t" by (simp add: has_interrupted_def)
    ultimately show ?thesis using length_replace_all_less[OF deletes_interrupted] by simp
  qed
  moreover have "length (cleanSystemTags t) \<le> length (replace_all m_interrupted ?a)"
    using ne by (simp add: cleanSystemTags_def length_trim_le)
  ultimately show ?thesis by simp
qed

text \<open>
  C9, as amended. A second pass of \<^verbatim>\<open>cleanSystemTags\<close> changes nothing exactly when the
  first pass left neither a \<^verbatim>\<open><system-reminder>...</system-reminder>\<close> span nor
  \<^verbatim>\<open>[Request interrupted by user]\<close> behind. (A pass removes each match it finds going left
  to right, and the removal of one match can join the text around it into a new one.)
\<close>

theorem sanitizer_idempotent_iff:
  "cleanSystemTags (cleanSystemTags s) = cleanSystemTags s
   \<longleftrightarrow> \<not> has_reminder (cleanSystemTags s) \<and> \<not> has_interrupted (cleanSystemTags s)"
proof
  assume e: "cleanSystemTags (cleanSystemTags s) = cleanSystemTags s"
  show "\<not> has_reminder (cleanSystemTags s) \<and> \<not> has_interrupted (cleanSystemTags s)"
  proof (rule ccontr)
    assume "\<not> ?thesis"
    then have "length (cleanSystemTags (cleanSystemTags s)) < length (cleanSystemTags s)"
      by (intro clean_shrinks) blast
    with e show False by simp
  qed
next
  assume "\<not> has_reminder (cleanSystemTags s) \<and> \<not> has_interrupted (cleanSystemTags s)"
  then show "cleanSystemTags (cleanSystemTags s) = cleanSystemTags s"
    by (intro clean_fix clean_trimmed) simp_all
qed

text \<open>The theorem at a text with a reminder span and surrounding blanks.\<close>

theorem sanitizer_idempotent_witness:
  "cleanSystemTags (cleanSystemTags '' Hi <system-reminder>x</system-reminder> '')
     = cleanSystemTags '' Hi <system-reminder>x</system-reminder> ''"
proof -
  have h: "\<not> has_reminder (cleanSystemTags '' Hi <system-reminder>x</system-reminder> '')
           \<and> \<not> has_interrupted (cleanSystemTags '' Hi <system-reminder>x</system-reminder> '')"
    by code_simp
  show ?thesis by (rule iffD2[OF sanitizer_idempotent_iff h])
qed

text \<open>
  C9 as stated fails: the first pass removes the inner marker of
  \<^verbatim>\<open>[Request interrupted by [Request interrupted by user]user]\<close> and returns
  \<^verbatim>\<open>[Request interrupted by user]\<close>, which the second pass removes.
\<close>

theorem sanitizer_not_idempotent:
  "cleanSystemTags ''[Request interrupted by [Request interrupted by user]user]''
     = ''[Request interrupted by user]''
   \<and> cleanSystemTags (cleanSystemTags ''[Request interrupted by [Request interrupted by user]user]'')
     = []"
  by code_simp

section \<open>Order of the size remediation\<close>












section \<open>Length of the history before remediation\<close>

lemma or_default_pos: "0 < d \<Longrightarrow> 0 < or_default v d"
  by (auto simp: or_default_def split: option.splits)

lemma max_history_pos: "0 < max_history cfg"
  by (simp add: max_history_def or_default_pos)

lemma length_processedMessages: "length (processedMessages cfg ms) \<le> max_history cfg"
  by (simp add: processedMessages_def)

lemma processedMessages_Nil: "processedMessages cfg ms = [] \<longleftrightarrow> ms = []"
  using max_history_pos[of cfg] by (auto simp: processedMessages_def)

lemma last_processedMessages:
  "ms \<noteq> [] \<Longrightarrow> last (processedMessages cfg ms)
     = (last ms)\<lparr>msg_content := truncateContent (msg_content (last ms)) (max_message_length cfg)\<rparr>"
  using max_history_pos[of cfg] by (auto simp: processedMessages_def last_map last_drop)

lemma length_history_loop:
  "length (history_loop n cm h ms) \<le> length h + length ms"
proof (induction ms arbitrary: h)
  case Nil
  then show ?case by simp
next
  case (Cons a ms)
  have "length (history_loop n cm (h @ [e]) ms) \<le> Suc (length h + length ms)" for e
    using Cons.IH[of "h @ [e]"] by simp
  moreover have "length (history_loop n cm h ms) \<le> Suc (length h + length ms)"
    using Cons.IH[of h] by simp
  ultimately show ?case by simp
qed

lemma hd_is_last: "length xs = 1 \<Longrightarrow> hd xs = last xs"
  by (cases xs) auto

lemma history_bounds:
  assumes "messages \<noteq> []"
  shows "length (history_of (shape_request sv uuid messages model tools inSystemPrompt))
           \<le> max_history (sv_config sv)
             + (if system_alone sv messages inSystemPrompt \<and> msg_role (last messages) = ''assistant''
                then 1 else 0)"
proof -
  let ?cfg = "sv_config sv"
  let ?pm = "processedMessages ?cfg messages"
  let ?sys = "getContentText_of inSystemPrompt"
  define cm where "cm = (case MODEL_MAPPING (sv_KIRO_MODELS sv) model of
               Some m \<Rightarrow> Some m
             | None \<Rightarrow> MODEL_MAPPING (sv_KIRO_MODELS sv) (sv_modelName sv))"
  define h0 where "h0 = (if ?sys \<noteq> [] then
               (if msg_role (hd ?pm) = ''user''
                then [system_entry cm (?sys @ [CHR 0x0A, CHR 0x0A] @ getContentText (hd ?pm))]
                else [system_entry cm ?sys])
             else [])"
  define start :: nat where "start = (if ?sys \<noteq> [] \<and> msg_role (hd ?pm) = ''user'' then 1 else 0)"
  define h1 where "h1 = history_loop (max_message_length ?cfg) cm h0 (butlast (drop start ?pm))"
  define push :: nat where "push = (if msg_role (last ?pm) = ''assistant'' then 1 else 0)"
  have eq: "length (history_of (shape_request sv uuid messages model tools inSystemPrompt))
              = length h1 + push"
    by (simp add: shape_request_def Let_def history_of_def h1_def h0_def start_def cm_def push_def)
  from assms have ne: "?pm \<noteq> []" by (simp add: processedMessages_Nil)
  then have pos: "1 \<le> length ?pm" by (cases ?pm) auto
  have len: "length ?pm \<le> max_history ?cfg" by (rule length_processedMessages)
  have lastrole: "msg_role (last ?pm) = msg_role (last messages)"
    using assms by (simp add: last_processedMessages)
  have "length h1 \<le> length h0 + length (butlast (drop start ?pm))"
    unfolding h1_def by (rule length_history_loop)
  then have l1: "length h1 \<le> length h0 + (length ?pm - start - 1)" by simp
  have l0: "length h0 = (if ?sys \<noteq> [] then 1 else 0)" by (simp add: h0_def)
  show ?thesis
  proof (cases "?sys \<noteq> [] \<and> msg_role (hd ?pm) = ''user''")
    case True
    then have st: "start = 1" by (simp add: start_def)
    from True have na: "\<not> system_alone sv messages inSystemPrompt" by (simp add: system_alone_def)
    show ?thesis
    proof (cases "length ?pm = 1")
      case one: True
      then have "hd ?pm = last ?pm" by (rule hd_is_last)
      with True have "push = 0" by (simp add: push_def)
      with eq l1 l0 st True one len na show ?thesis by simp
    next
      case False
      with pos have "2 \<le> length ?pm" by simp
      moreover have "push \<le> 1" by (simp add: push_def)
      ultimately show ?thesis using eq l1 l0 st True len na by simp
    qed
  next
    case False
    then have st: "start = 0" by (auto simp: start_def)
    show ?thesis
    proof (cases "?sys = []")
      case True
      then have na: "\<not> system_alone sv messages inSystemPrompt" by (simp add: system_alone_def)
      have "push \<le> 1" by (simp add: push_def)
      with eq l1 l0 st True len na pos show ?thesis by simp
    next
      case nonempty: False
      with False have sa: "system_alone sv messages inSystemPrompt" by (simp add: system_alone_def)
      have "push = (if msg_role (last messages) = ''assistant'' then 1 else 0)"
        by (simp add: push_def lastrole)
      with eq l1 l0 st nonempty len sa pos show ?thesis by simp
    qed
  qed
qed

text \<open>
  C5, as amended. Before size remediation the history has at most \<^verbatim>\<open>KIRO_MAX_HISTORY\<close>
  entries, and one more when the system prompt has an entry to itself (the first
  retained message is not a user message) and the last message has the assistant role.
\<close>

theorem history_length_bound:
  "length (history_of (shape_request sv uuid (m # ms) model tools inSystemPrompt))
     \<le> max_history (sv_config sv)
       + (if system_alone sv (m # ms) inSystemPrompt \<and> msg_role (last (m # ms)) = ''assistant''
          then 1 else 0)"
  by (rule history_bounds) simp

text \<open>
  C5 as stated fails with the default cap of 15: of 16 alternating messages the last 15
  are retained, they begin and end with an assistant message, and with a system prompt
  the history has 16 entries.
\<close>

theorem history_length_counterexample:
  "length (history_of (shape_request (new_service no_config None None []) ''c1''
      (concat (replicate 8 [\<lparr>msg_role = ''user'', msg_content = CString ''q''\<rparr>,
                            \<lparr>msg_role = ''assistant'', msg_content = CString ''a''\<rparr>]))
      ''claude-sonnet-4-5'' None (CString ''s''))) = 16
   \<and> max_history (sv_config (new_service no_config None None [])) = 15"
  by code_simp

section \<open>The current message\<close>




text \<open>What size enforcement leaves alone.\<close>

lemma current_set_history [simp]:
  "current_content (set_history r h) = current_content r"
  "current_toolResults (set_history r h) = current_toolResults r"
  by (simp_all add: current_content_def current_toolResults_def set_history_def)

lemma current_stage_a [simp]:
  "current_content (stage_a f b r) = current_content r"
  "current_toolResults (stage_a f b r) = current_toolResults r"
proof (induction f b r rule: stage_a.induct)
  case (1 f b r)
  {
    case 1
    show ?case using "1.IH"(1) by (subst stage_a.simps) auto
  next
    case 2
    show ?case using "1.IH"(2) by (subst stage_a.simps) auto
  }
qed

lemma current_stage_b [simp]:
  "current_content (stage_b r) = current_content r"
  "current_toolResults (stage_b r) = current_toolResults r"
  by (simp_all add: stage_b_def)

lemma current_stage_c [simp]:
  "current_content (stage_c r) = current_content r"
  "current_toolResults (stage_c r) = current_toolResults r"
  by (auto simp: stage_c_def remove_tools_def current_content_def current_toolResults_def
        option.map_comp comp_def split: option.splits)

lemma current_stage_d [simp]:
  "current_content (stage_d r) = current_content r"
  "current_toolResults (stage_d r) = current_toolResults r"
  by (simp_all add: stage_d_def)







lemma history_of_remove_tools [simp]: "history_of (remove_tools r) = history_of r"
  by (simp add: history_of_def remove_tools_def)










section \<open>Refresh and retry on HTTP 403\<close>

lemma callApi_built_error: "callApi cfg tr model (Inl e) isRetry n w = (Inl e, w)"
  by (subst callApi.simps) simp

lemma callApi_success:
  "post_outcome tr (posts w) (url_of tr model) rq = Inr response
   \<Longrightarrow> callApi cfg tr model (Inr rq) isRetry n w = (Inr response, posted tr model w)"
  by (subst callApi.simps) (simp add: Let_def url_of_def posted_def)

lemma callApi_refresh_fails:
  "post_outcome tr (posts w) (url_of tr model) rq = Inl error \<Longrightarrow> err_status error = Some 403
   \<Longrightarrow> refresh_outcome tr (refreshes w) = Some refreshError
   \<Longrightarrow> callApi cfg tr model (Inr rq) False n w
       = (Inl refreshError,
          (posted tr model w)\<lparr>refreshes := refreshes w + 1,
             trace := trace (posted tr model w) @ [Refresh]\<rparr>)"
  by (subst callApi.simps) (simp add: Let_def url_of_def posted_def)

lemma callApi_refresh_retry:
  "post_outcome tr (posts w) (url_of tr model) rq = Inl error \<Longrightarrow> err_status error = Some 403
   \<Longrightarrow> refresh_outcome tr (refreshes w) = None
   \<Longrightarrow> callApi cfg tr model (Inr rq) False n w
       = callApi cfg tr model (Inr rq) True n
          ((posted tr model w)\<lparr>refreshes := refreshes w + 1,
             trace := trace (posted tr model w) @ [Refresh]\<rparr>)"
  by (subst callApi.simps) (simp add: Let_def url_of_def posted_def)

lemma callApi_backoff:
  "post_outcome tr (posts w) (url_of tr model) rq = Inl error
   \<Longrightarrow> \<not> (err_status error = Some 403 \<and> \<not> isRetry) \<Longrightarrow> backs_off cfg error n
   \<Longrightarrow> callApi cfg tr model (Inr rq) isRetry n w
       = callApi cfg tr model (Inr rq) isRetry (n + 1) (backoff cfg n (posted tr model w))"
  by (subst callApi.simps) (auto simp add: Let_def url_of_def posted_def backs_off_def)

lemma callApi_propagates:
  "post_outcome tr (posts w) (url_of tr model) rq = Inl error
   \<Longrightarrow> \<not> (err_status error = Some 403 \<and> \<not> isRetry) \<Longrightarrow> \<not> backs_off cfg error n
   \<Longrightarrow> callApi cfg tr model (Inr rq) isRetry n w = (Inl error, posted tr model w)"
  by (subst callApi.simps) (auto simp add: Let_def url_of_def posted_def backs_off_def)

lemma refreshes_posted [simp]: "refreshes (posted tr model w) = refreshes w"
  by (simp add: posted_def)

lemma refreshes_backoff [simp]: "refreshes (backoff cfg n w) = refreshes w"
  by (simp add: backoff_def)

lemma retried_call_never_refreshes:
  "refreshes (snd (callApi cfg tr model built True n w)) = refreshes w"
proof (induction "or_default (REQUEST_MAX_RETRIES cfg) 3 - n" arbitrary: n w rule: less_induct)
  case less
  show ?case
  proof (cases built)
    case (Inl e)
    then show ?thesis by (simp add: callApi_built_error)
  next
    case (Inr rq)
    show ?thesis
    proof (cases "post_outcome tr (posts w) (url_of tr model) rq")
      case ok: (Inr response)
      show ?thesis unfolding Inr callApi_success[OF ok] by simp
    next
      case err: (Inl error)
      show ?thesis
      proof (cases "backs_off cfg error n")
        case True
        then have "or_default (REQUEST_MAX_RETRIES cfg) 3 - (n + 1)
                     < or_default (REQUEST_MAX_RETRIES cfg) 3 - n"
          by (auto simp: backs_off_def)
        then have "refreshes (snd (callApi cfg tr model built True (n + 1)
                      (backoff cfg n (posted tr model w))))
                   = refreshes (backoff cfg n (posted tr model w))"
          by (rule less)
        moreover have "callApi cfg tr model (Inr rq) True n w
             = callApi cfg tr model (Inr rq) True (n + 1) (backoff cfg n (posted tr model w))"
          by (rule callApi_backoff[OF err _ True]) simp
        ultimately show ?thesis unfolding Inr by simp
      next
        case False
        have "callApi cfg tr model (Inr rq) True n w = (Inl error, posted tr model w)"
          by (rule callApi_propagates[OF err _ False]) simp
        then show ?thesis unfolding Inr by simp
      qed
    qed
  qed
qed

text \<open>
  C8, as amended. When the first attempt of a call returns HTTP 403, \<^verbatim>\<open>callApi\<close> forces
  exactly one credential refresh over the whole call. If the refresh throws, its error
  propagates and nothing is posted again. If it succeeds, the call is made again once with
  the retry flag set; the call made again never reaches the refresh branch, and a second
  consecutive 403 (an HTTP error, not a network error) propagates as the error of the call.
\<close>

theorem refresh_and_retry_once:
  assumes "post_outcome tr 0 (url_of tr model) rq = Inl e" and "err_status e = Some 403"
  shows "refreshes (snd (callApi cfg tr model (Inr rq) False 0 fresh_world)) = 1
    \<and> (\<forall>re. refresh_outcome tr 0 = Some re \<longrightarrow>
          callApi cfg tr model (Inr rq) False 0 fresh_world
            = (Inl re, \<lparr>posts = 1, refreshes = 1, trace = [Post (url_of tr model), Refresh]\<rparr>))
    \<and> (refresh_outcome tr 0 = None \<longrightarrow>
          callApi cfg tr model (Inr rq) False 0 fresh_world
            = callApi cfg tr model (Inr rq) True 0
                \<lparr>posts = 1, refreshes = 1, trace = [Post (url_of tr model), Refresh]\<rparr>)
    \<and> (\<forall>e2. refresh_outcome tr 0 = None \<and> post_outcome tr 1 (url_of tr model) rq = Inl e2
             \<and> err_status e2 = Some 403 \<and> \<not> isNetworkError e2 \<longrightarrow>
          callApi cfg tr model (Inr rq) False 0 fresh_world
            = (Inl e2, \<lparr>posts = 2, refreshes = 1,
                        trace = [Post (url_of tr model), Refresh, Post (url_of tr model)]\<rparr>))"
proof -
  let ?w2 = "\<lparr>posts = 1, refreshes = 1, trace = [Post (url_of tr model), Refresh]\<rparr>"
  have p0: "post_outcome tr (posts fresh_world) (url_of tr model) rq = Inl e"
    using assms(1) by (simp add: fresh_world_def)
  have w2: "(posted tr model fresh_world)\<lparr>refreshes := refreshes fresh_world + 1,
             trace := trace (posted tr model fresh_world) @ [Refresh]\<rparr> = ?w2"
    by (simp add: posted_def fresh_world_def)
  have fail: "callApi cfg tr model (Inr rq) False 0 fresh_world = (Inl re, ?w2)"
    if "refresh_outcome tr 0 = Some re" for re
  proof -
    from that have "refresh_outcome tr (refreshes fresh_world) = Some re"
      by (simp add: fresh_world_def)
    from callApi_refresh_fails[OF p0 assms(2) this] show ?thesis unfolding w2 .
  qed
  have ok: "callApi cfg tr model (Inr rq) False 0 fresh_world
              = callApi cfg tr model (Inr rq) True 0 ?w2"
    if "refresh_outcome tr 0 = None"
  proof -
    from that have "refresh_outcome tr (refreshes fresh_world) = None"
      by (simp add: fresh_world_def)
    from callApi_refresh_retry[OF p0 assms(2) this] show ?thesis unfolding w2 .
  qed
  have second: "callApi cfg tr model (Inr rq) True 0 ?w2
              = (Inl e2, \<lparr>posts = 2, refreshes = 1,
                        trace = [Post (url_of tr model), Refresh, Post (url_of tr model)]\<rparr>)"
    if a: "post_outcome tr 1 (url_of tr model) rq = Inl e2" and b: "err_status e2 = Some 403"
      and c: "\<not> isNetworkError e2" for e2
  proof -
    have p1: "post_outcome tr (posts ?w2) (url_of tr model) rq = Inl e2" using a by simp
    have nb: "\<not> backs_off cfg e2 0" using b c by (simp add: backs_off_def server_error_def)
    have "callApi cfg tr model (Inr rq) True 0 ?w2 = (Inl e2, posted tr model ?w2)"
      by (rule callApi_propagates[OF p1 _ nb]) simp
    then show ?thesis by (simp add: posted_def)
  qed
  have count: "refreshes (snd (callApi cfg tr model (Inr rq) False 0 fresh_world)) = 1"
  proof (cases "refresh_outcome tr 0")
    case None
    show ?thesis
      unfolding ok[OF None] retried_call_never_refreshes by simp
  next
    case (Some re)
    show ?thesis unfolding fail[OF Some] by simp
  qed
  show ?thesis
  proof (intro conjI allI impI)
    show "refreshes (snd (callApi cfg tr model (Inr rq) False 0 fresh_world)) = 1" by (rule count)
  next
    fix re assume "refresh_outcome tr 0 = Some re"
    then show "callApi cfg tr model (Inr rq) False 0 fresh_world = (Inl re, ?w2)" by (rule fail)
  next
    assume "refresh_outcome tr 0 = None"
    then show "callApi cfg tr model (Inr rq) False 0 fresh_world
                 = callApi cfg tr model (Inr rq) True 0 ?w2" by (rule ok)
  next
    fix e2
    assume h: "refresh_outcome tr 0 = None \<and> post_outcome tr 1 (url_of tr model) rq = Inl e2
             \<and> err_status e2 = Some 403 \<and> \<not> isNetworkError e2"
    then have "callApi cfg tr model (Inr rq) False 0 fresh_world
                 = callApi cfg tr model (Inr rq) True 0 ?w2" by (intro ok) simp
    also have "\<dots> = (Inl e2, \<lparr>posts = 2, refreshes = 1,
                        trace = [Post (url_of tr model), Refresh, Post (url_of tr model)]\<rparr>)"
      using h by (intro second) simp_all
    finally show "callApi cfg tr model (Inr rq) False 0 fresh_world
            = (Inl e2, \<lparr>posts = 2, refreshes = 1,
                        trace = [Post (url_of tr model), Refresh, Post (url_of tr model)]\<rparr>)" .
  qed
qed

text \<open>The theorem at an upstream that answers every post with 403 and refreshes well.\<close>

theorem refresh_and_retry_once_witness:
  "callApi no_config
     \<lparr>baseUrl = ''base'', amazonQUrl = ''q'',
      post_outcome = (\<lambda>k url r. Inl \<lparr>err_status = Some 403, err_code = None, err_message = None\<rparr>),
      refresh_outcome = (\<lambda>k. None)\<rparr>
     ''claude-sonnet-4-5''
     (Inr \<lparr>conversationState = \<lparr>chatTriggerType = ''MANUAL'', conversationId = ''c1'',
             currentMessage = None, history = []\<rparr>, profileArn = None\<rparr>)
     False 0 fresh_world
   = (Inl \<lparr>err_status = Some 403, err_code = None, err_message = None\<rparr>,
      \<lparr>posts = 2, refreshes = 1, trace = [Post ''base'', Refresh, Post ''base'']\<rparr>)"
proof -
  let ?e = "\<lparr>err_status = Some 403, err_code = None, err_message = None\<rparr>"
  let ?tr = "\<lparr>baseUrl = ''base'', amazonQUrl = ''q'',
      post_outcome = (\<lambda>k url r. Inl ?e), refresh_outcome = (\<lambda>k. None)\<rparr>"
  let ?rq = "\<lparr>conversationState = \<lparr>chatTriggerType = ''MANUAL'', conversationId = ''c1'',
             currentMessage = None, history = []\<rparr>, profileArn = None\<rparr>"
  have u: "url_of ?tr ''claude-sonnet-4-5'' = ''base''" by (simp add: url_of_def)
  have a: "post_outcome ?tr 0 (url_of ?tr ''claude-sonnet-4-5'') ?rq = Inl ?e" by simp
  have b: "err_status ?e = Some 403" by simp
  have c: "refresh_outcome ?tr 0 = None \<and> post_outcome ?tr 1 (url_of ?tr ''claude-sonnet-4-5'') ?rq = Inl ?e
             \<and> err_status ?e = Some 403 \<and> \<not> isNetworkError ?e"
    by (simp add: isNetworkError_def)
  from refresh_and_retry_once[OF a b, of no_config] c
  have "callApi no_config ?tr ''claude-sonnet-4-5'' (Inr ?rq) False 0 fresh_world
            = (Inl ?e, \<lparr>posts = 2, refreshes = 1,
                        trace = [Post (url_of ?tr ''claude-sonnet-4-5''), Refresh,
                                 Post (url_of ?tr ''claude-sonnet-4-5'')]\<rparr>)"
    by blast
  then show ?thesis unfolding u .
qed

text \<open>
  C8 as stated fails: when the forced refresh throws, the call is not made again; one
  request was posted and the error of the refresh is the outcome.
\<close>

theorem no_retry_after_failed_refresh:
  "callApi no_config
     \<lparr>baseUrl = ''base'', amazonQUrl = ''q'',
      post_outcome = (\<lambda>k url r. Inl \<lparr>err_status = Some 403, err_code = None, err_message = None\<rparr>),
      refresh_outcome = (\<lambda>k. Some \<lparr>err_status = None, err_code = None,
                                     err_message = Some ''Token refresh failed''\<rparr>)\<rparr>
     ''claude-sonnet-4-5''
     (Inr \<lparr>conversationState = \<lparr>chatTriggerType = ''MANUAL'', conversationId = ''c1'',
             currentMessage = None, history = []\<rparr>, profileArn = None\<rparr>)
     False 0 fresh_world
   = (Inl \<lparr>err_status = None, err_code = None, err_message = Some ''Token refresh failed''\<rparr>,
      \<lparr>posts = 1, refreshes = 1, trace = [Post ''base'', Refresh]\<rparr>)"
  by (subst callApi.simps) (simp add: Let_def fresh_world_def)

section \<open>The builder of structured tool calls\<close>

lemma with_arguments_Nil [simp]: "with_arguments d [] = d"
  by (simp add: with_arguments_def)

lemma with_arguments_append [simp]:
  "with_arguments (with_arguments d a) b = with_arguments d (a @ b)"
  by (simp add: with_arguments_def)

lemma with_arguments_opened [simp]:
  "with_arguments (opened_call n t a) b = opened_call n t (a @ b)"
  by (simp add: with_arguments_def opened_call_def)






lemma feed_events_Nil [simp]: "feed_events st [] = st"
  by (simp add: feed_events_def)



lemma scan_block_single:
  assumes "trim block \<noteq> []" and "candidates block = [c]" and "JSON_parse (trim c) = Some eventData"
  shows "scan_block st block = feed_events st [eventData]"
  using assms by (simp add: scan_block_def feed_events_def split: option.splits)





section \<open>Bracket text left in the response text\<close>








end
